theory Spec2Isabelle
  imports Complex_Main
begin

section \<open>Numbers: NumPy float64 values\<close>

text \<open>
  The entries of every array of \<^verbatim>\<open>AmpScan/pca.py\<close> are float64 values. A finite value is
  modelled by the real number it stands for; the three special values of IEEE 754 are
  kept, with the arithmetic NumPy gives them: NaN absorbs, \<open>inf - inf\<close> and \<open>0 * inf\<close> are
  NaN. A product of finite values that leaves the float64 range overflows to an
  infinity, as rounding to nearest does from \<open>2^1024 - 2^970\<close> on. Rounding inside the
  range is not modelled, sums are exact (so that addition is associative and the order
  in which NumPy adds the entries of a row need not be fixed), and signed zeros are not
  distinguished.
\<close>

datatype fl = Fin real | PInf | NInf | NaN

definition overflow_threshold :: real where
  "overflow_threshold = 2 ^ 1024 - 2 ^ 970"

definition round_overflow :: "real \<Rightarrow> fl" where
  "round_overflow r =
     (if overflow_threshold \<le> r then PInf
      else if r \<le> - overflow_threshold then NInf
      else Fin r)"

instantiation fl :: "{comm_monoid_add, times}"
begin

definition zero_fl :: fl where
  "zero_fl = Fin 0"

fun plus_fl :: "fl \<Rightarrow> fl \<Rightarrow> fl" where
  "plus_fl NaN y = NaN"
| "plus_fl x NaN = NaN"
| "plus_fl PInf NInf = NaN"
| "plus_fl NInf PInf = NaN"
| "plus_fl PInf y = PInf"
| "plus_fl x PInf = PInf"
| "plus_fl NInf y = NInf"
| "plus_fl x NInf = NInf"
| "plus_fl (Fin a) (Fin b) = Fin (a + b)"

fun times_fl :: "fl \<Rightarrow> fl \<Rightarrow> fl" where
  "times_fl NaN y = NaN"
| "times_fl x NaN = NaN"
| "times_fl (Fin a) (Fin b) = round_overflow (a * b)"
| "times_fl (Fin a) PInf = (if a = 0 then NaN else if 0 < a then PInf else NInf)"
| "times_fl (Fin a) NInf = (if a = 0 then NaN else if 0 < a then NInf else PInf)"
| "times_fl PInf (Fin b) = (if b = 0 then NaN else if 0 < b then PInf else NInf)"
| "times_fl NInf (Fin b) = (if b = 0 then NaN else if 0 < b then NInf else PInf)"
| "times_fl PInf PInf = PInf"
| "times_fl PInf NInf = NInf"
| "times_fl NInf PInf = NInf"
| "times_fl NInf NInf = PInf"

instance
proof (intro_classes, goal_cases)
  case (1 u v w)
  show ?case by (cases u; cases v; cases w; simp)
next
  case (2 u v)
  show ?case by (cases u; cases v; simp)
next
  case (3 u)
  show ?case by (cases u; simp add: zero_fl_def)
qed

end

text \<open>Unary minus and subtraction (\<open>x - y\<close> is \<open>x + (-y)\<close> on these values).\<close>

fun fneg :: "fl \<Rightarrow> fl" where
  "fneg (Fin a) = Fin (- a)"
| "fneg PInf = NInf"
| "fneg NInf = PInf"
| "fneg NaN = NaN"

definition fsub :: "fl \<Rightarrow> fl \<Rightarrow> fl" where
  "fsub x y = x + fneg y"

text \<open>
  Division of a float by an element count (a non-negative Python int), as \<open>mean\<close> and
  \<open>std\<close> perform it: dividing by a count of 0 gives NaN for 0/0 and an infinity
  otherwise (NumPy warns and goes on).
\<close>

fun fdivn :: "fl \<Rightarrow> nat \<Rightarrow> fl" where
  "fdivn NaN n = NaN"
| "fdivn PInf n = PInf"
| "fdivn NInf n = NInf"
| "fdivn (Fin a) n =
     (if n = 0 then (if a = 0 then NaN else if 0 < a then PInf else NInf)
      else Fin (a / real n))"

fun fsqrt :: "fl \<Rightarrow> fl" where
  "fsqrt NaN = NaN"
| "fsqrt PInf = PInf"
| "fsqrt NInf = NaN"
| "fsqrt (Fin a) = (if a < 0 then NaN else Fin (sqrt a))"

fun is_finite :: "fl \<Rightarrow> bool" where
  "is_finite (Fin a) = True"
| "is_finite x = False"


section \<open>Arrays\<close>

text \<open>
  A 1-D array is the list of its entries. A 2-D array of shape \<open>(nrows, ncols)\<close> is the
  list of its rows together with its column count, which NumPy keeps also when there is
  no row. \<open>wf_mat\<close> says that every row has that many entries.
\<close>

type_synonym vec = "fl list"

datatype mat = Mat (ncols: nat) (rows: "vec list")

definition nrows :: "mat \<Rightarrow> nat" where
  "nrows M = length (rows M)"

definition wf_mat :: "mat \<Rightarrow> bool" where
  "wf_mat M = list_all (\<lambda>r. length r = ncols M) (rows M)"

text \<open>
  What \<open>self.X\<close> can hold: a 1-D float array, a 2-D float array, or (older NumPy, ragged
  input) a 1-D object array whose entries are the rows themselves.
\<close>

datatype ndarray = A1 vec | A2 mat | AObj "vec list"

datatype error =
    AttributeError | UnboundLocalError | ValueError | AxisError | LinAlgError | OSError

text \<open>
  \<open>np.array\<close> on a list of 1-D float arrays. The empty list gives the 1-D array of shape
  \<open>(0,)\<close>; rows of one length give a 2-D array; rows of different lengths depend on the
  installed NumPy, which the code does not pin: before 1.24 the result is a 1-D object
  array (with a deprecation warning from 1.19 on), from 1.24 on \<open>ValueError\<close> is raised.
\<close>

datatype numpy = RaggedObject | RaggedError

definition np_array :: "numpy \<Rightarrow> vec list \<Rightarrow> error + ndarray" where
  "np_array np vs =
     (case vs of
        [] \<Rightarrow> Inr (A1 [])
      | v # _ \<Rightarrow>
          if list_all (\<lambda>w. length w = length v) vs then Inr (A2 (Mat (length v) vs))
          else (case np of RaggedObject \<Rightarrow> Inr (AObj vs) | RaggedError \<Rightarrow> Inl ValueError))"

text \<open>The attribute \<open>.T\<close>: a 1-D array is its own transpose.\<close>

definition transpose_mat :: "mat \<Rightarrow> mat" where
  "transpose_mat M = Mat (nrows M) (map (\<lambda>j. map (\<lambda>r. r ! j) (rows M)) [0..<ncols M])"

fun T_attr :: "ndarray \<Rightarrow> ndarray" where
  "T_attr (A2 M) = A2 (transpose_mat M)"
| "T_attr a = a"

text \<open>\<open>M.mean(axis=1)\<close>: the sum of each row divided by the number of columns.\<close>

definition mean_axis1 :: "mat \<Rightarrow> vec" where
  "mean_axis1 M = map (\<lambda>r. fdivn (sum_list r) (ncols M)) (rows M)"

text \<open>\<open>M - v[:, None]\<close>: entry \<open>v[d]\<close> is subtracted from every entry of row \<open>d\<close>.\<close>

definition sub_col :: "mat \<Rightarrow> vec \<Rightarrow> mat" where
  "sub_col M v = Mat (ncols M) (map2 (\<lambda>r m. map (\<lambda>x. fsub x m) r) (rows M) v)"

text \<open>\<open>np.diag(S)\<close> of a 1-D array: the square matrix with \<open>S\<close> on the diagonal, 0 elsewhere.\<close>

definition np_diag :: "vec \<Rightarrow> mat" where
  "np_diag S =
     Mat (length S)
       (map (\<lambda>i. map (\<lambda>j. if i = j then S ! i else 0) [0..<length S]) [0..<length S])"

text \<open>\<open>np.dot(A, B)\<close> of two 2-D arrays: the matrix product, \<open>ValueError\<close> when the inner
  dimensions differ.\<close>

definition np_dot :: "mat \<Rightarrow> mat \<Rightarrow> error + mat" where
  "np_dot A B =
     (if ncols A \<noteq> nrows B then Inl ValueError
      else Inr (Mat (ncols B)
        (map (\<lambda>r. map (\<lambda>n. sum_list (map2 (*) r (map (\<lambda>b. b ! n) (rows B)))) [0..<ncols B])
           (rows A))))"

text \<open>
  \<open>np.std(W, axis=1)\<close> with the default \<open>ddof=0\<close>: per row, the mean is the sum over the
  number of columns, the deviations are squared by multiplication, their sum is divided
  by the same count, and the square root is taken.
\<close>

definition np_std_row :: "nat \<Rightarrow> vec \<Rightarrow> fl" where
  "np_std_row n r =
     (let mu = fdivn (sum_list r) n
      in fsqrt (fdivn (sum_list (map (\<lambda>x. fsub x mu * fsub x mu) r)) n))"

definition np_std_axis1 :: "mat \<Rightarrow> vec" where
  "np_std_axis1 W = map (np_std_row (ncols W)) (rows W)"

text \<open>
  Broadcasting. \<open>M * v\<close> for a 2-D array of shape \<open>(D, K)\<close> and a 1-D array of length \<open>L\<close>
  aligns \<open>L\<close> with \<open>K\<close>: equal lengths multiply column-wise; an axis of length 1 is
  stretched to the other; anything else raises \<open>ValueError\<close>.
\<close>

definition mul_bc :: "mat \<Rightarrow> vec \<Rightarrow> error + mat" where
  "mul_bc M v =
     (if length v = ncols M then Inr (Mat (ncols M) (map (\<lambda>r. map2 (*) r v) (rows M)))
      else if length v = 1 then Inr (Mat (ncols M) (map (\<lambda>r. map (\<lambda>x. x * hd v) r) (rows M)))
      else if ncols M = 1 then Inr (Mat (length v) (map (\<lambda>r. map (\<lambda>c. hd r * c) v) (rows M)))
      else Inl ValueError)"

text \<open>\<open>M.sum(axis=1)\<close>.\<close>

definition sum_axis1 :: "mat \<Rightarrow> vec" where
  "sum_axis1 M = map sum_list (rows M)"

text \<open>\<open>a + b\<close> for two 1-D arrays, with the same broadcasting rule.\<close>

definition add_bc :: "vec \<Rightarrow> vec \<Rightarrow> error + vec" where
  "add_bc a b =
     (if length a = length b then Inr (map2 (+) a b)
      else if length b = 1 then Inr (map (\<lambda>x. x + hd b) a)
      else if length a = 1 then Inr (map (\<lambda>y. hd a + y) b)
      else Inl ValueError)"


section \<open>The class \<open>pca\<close>\<close>

text \<open>
  An \<open>AmpObject\<close> (module \<open>core\<close>) is used through its vertex array \<open>vert\<close>, of shape
  \<open>(V, 3)\<close>, and carries its faces along. \<open>vert.flatten()\<close> lists the array in row-major
  order: vertex after vertex, the three coordinates of a vertex side by side.
\<close>

record AmpObject =
  vert :: "(fl \<times> fl \<times> fl) list"
  faces :: "(nat \<times> nat \<times> nat) list"

definition flatten :: "(fl \<times> fl \<times> fl) list \<Rightarrow> vec" where
  "flatten vs = concat (map (\<lambda>(x, y, z). [x, y, z]) vs)"

text \<open>
  The instance attributes. \<open>__init__\<close> creates \<open>shapes\<close> only; every other attribute
  exists from the first assignment on, so it is an option here and reading it while it is
  \<open>None\<close> raises \<open>AttributeError\<close>.
\<close>

record pca =
  shapes :: "AmpObject list"
  baseline :: "AmpObject option"
  registered :: "AmpObject list option"
  X :: "ndarray option"
  pca_mean :: "vec option"
  pca_U :: "mat option"
  pca_S :: "vec option"
  pca_V :: "mat option"
  pc_weights :: "mat option"
  pc_stdevs :: "vec option"

definition init :: pca where
  "init = \<lparr>shapes = [], baseline = None, registered = None, X = None, pca_mean = None,
     pca_U = None, pca_S = None, pca_V = None, pc_weights = None, pc_stdevs = None\<rparr>"

text \<open>
  The collaborators that are not part of \<^verbatim>\<open>pca.py\<close> are parameters: the constructor
  \<open>AmpObject(path, 'limb', unify=...)\<close> (the flag is \<open>None\<close> when it is not passed),
  \<open>os.listdir\<close>, \<open>planarTrim\<close>, the registration (its result's \<open>.reg\<close>) and
  \<open>np.linalg.svd(_, full_matrices=False)\<close>.
\<close>

type_synonym loader = "string \<Rightarrow> bool option \<Rightarrow> error + AmpObject"
type_synonym svd = "mat \<Rightarrow> error + (mat \<times> vec \<times> mat)"

definition setBaseline :: "loader \<Rightarrow> string \<Rightarrow> pca \<Rightarrow> (error + unit) \<times> pca" where
  "setBaseline load path st =
     (case load path None of
        Inl e \<Rightarrow> (Inl e, st)
      | Inr b \<Rightarrow> (Inr (), st\<lparr>baseline := Some b\<rparr>))"

definition endswith :: "string \<Rightarrow> string \<Rightarrow> bool" where
  "endswith s suf = (length suf \<le> length s \<and> drop (length s - length suf) s = suf)"

fun load_all :: "loader \<Rightarrow> bool \<Rightarrow> string list \<Rightarrow> error + AmpObject list" where
  "load_all load unify [] = Inr []"
| "load_all load unify (p # ps) =
     (case load p (Some unify) of
        Inl e \<Rightarrow> Inl e
      | Inr a \<Rightarrow> (case load_all load unify ps of Inl e \<Rightarrow> Inl e | Inr as \<Rightarrow> Inr (a # as)))"

definition importFolder ::
  "(string \<Rightarrow> error + string list) \<Rightarrow> loader \<Rightarrow> string \<Rightarrow> bool \<Rightarrow> pca \<Rightarrow> (error + unit) \<times> pca"
where
  "importFolder listdir load path unify st =
     (case listdir path of
        Inl e \<Rightarrow> (Inl e, st)
      | Inr fs \<Rightarrow>
          (case load_all load unify (map (\<lambda>f. path @ f) (filter (\<lambda>f. endswith f ''.stl'') fs)) of
             Inl e \<Rightarrow> (Inl e, st)
           | Inr ss \<Rightarrow> (Inr (), st\<lparr>shapes := ss\<rparr>)))"

definition sliceFiles :: "(fl \<Rightarrow> AmpObject \<Rightarrow> AmpObject) \<Rightarrow> fl \<Rightarrow> pca \<Rightarrow> pca" where
  "sliceFiles planarTrim height st = st\<lparr>shapes := map (planarTrim height) (shapes st)\<rparr>"

text \<open>
  \<open>register\<close>. The comprehension reads \<open>self.baseline\<close> once per shape, so a missing
  baseline raises only when there is a shape. \<open>self.registered\<close> is assigned before
  the matrix is built; \<open>self.X\<close> only when \<open>np.array\<close> has returned. The parameter
  \<open>scale\<close> of the method is never read.
\<close>

definition register ::
  "numpy \<Rightarrow> (AmpObject \<Rightarrow> AmpObject \<Rightarrow> AmpObject) \<Rightarrow> pca \<Rightarrow> (error + unit) \<times> pca"
where
  "register np registration st =
     (case (if shapes st = [] then Inr []
            else (case baseline st of
                    None \<Rightarrow> Inl AttributeError
                  | Some b \<Rightarrow> Inr (map (registration b) (shapes st)))) of
        Inl e \<Rightarrow> (Inl e, st)
      | Inr rs \<Rightarrow>
          (let st1 = st\<lparr>registered := Some rs\<rparr>
           in case np_array np (map (\<lambda>r. flatten (vert r)) rs) of
                Inl e \<Rightarrow> (Inl e, st1)
              | Inr a \<Rightarrow> (Inr (), st1\<lparr>X := Some (T_attr a)\<rparr>)))"

text \<open>
  The method \<open>pca\<close>. Each line assigns its attribute before the next line runs, so an
  exception of a later line leaves the earlier assignments in place. \<open>mean(axis=1)\<close>
  raises \<open>AxisError\<close> on a 1-D array.
\<close>

definition pca :: "svd \<Rightarrow> pca \<Rightarrow> (error + unit) \<times> pca" where
  "pca svd st =
     (case X st of
        None \<Rightarrow> (Inl AttributeError, st)
      | Some (A1 v) \<Rightarrow> (Inl AxisError, st)
      | Some (AObj vs) \<Rightarrow> (Inl AxisError, st)
      | Some (A2 M) \<Rightarrow>
          (let m = mean_axis1 M;
               st1 = st\<lparr>pca_mean := Some m\<rparr>;
               X_meanC = sub_col M m
           in case svd X_meanC of
                Inl e \<Rightarrow> (Inl e, st1)
              | Inr (U, S, V) \<Rightarrow>
                  (let st2 = st1\<lparr>pca_U := Some U, pca_S := Some S, pca_V := Some V\<rparr>
                   in case np_dot (np_diag S) V of
                        Inl e \<Rightarrow> (Inl e, st2)
                      | Inr W \<Rightarrow>
                          (Inr (), st2\<lparr>pc_weights := Some W,
                                       pc_stdevs := Some (np_std_axis1 W)\<rparr>))))"

text \<open>
  \<open>newShape(sfs, scale)\<close> with a 1-D coefficient sequence \<open>sfs\<close>. The local \<open>sf\<close> is bound
  in the two branches only (\<open>None\<close> below when neither ran); the return statement reads
  \<open>self.pca_mean\<close> first and \<open>sf\<close> second. \<open>self.pca_U * self.pc_stdevs * sfs\<close> multiplies
  from the left.
\<close>

definition newShape :: "pca \<Rightarrow> vec \<Rightarrow> string \<Rightarrow> error + vec" where
  "newShape st sfs scale =
     (case (if scale = ''eigs'' then
              (case pca_U st of
                 None \<Rightarrow> Inl AttributeError
               | Some U \<Rightarrow>
                   (case mul_bc U sfs of Inl e \<Rightarrow> Inl e | Inr P \<Rightarrow> Inr (Some (sum_axis1 P))))
            else if scale = ''std'' then
              (case pca_U st of
                 None \<Rightarrow> Inl AttributeError
               | Some U \<Rightarrow>
                   (case pc_stdevs st of
                      None \<Rightarrow> Inl AttributeError
                    | Some sd \<Rightarrow>
                        (case mul_bc U sd of
                           Inl e \<Rightarrow> Inl e
                         | Inr P \<Rightarrow>
                             (case mul_bc P sfs of
                                Inl e \<Rightarrow> Inl e
                              | Inr Q \<Rightarrow> Inr (Some (sum_axis1 Q))))))
            else Inr None) of
        Inl e \<Rightarrow> Inl e
      | Inr sf \<Rightarrow>
          (case pca_mean st of
             None \<Rightarrow> Inl AttributeError
           | Some m \<Rightarrow>
               (case sf of None \<Rightarrow> Inl UnboundLocalError | Some s \<Rightarrow> add_bc m s)))"


section \<open>Fitted models\<close>

text \<open>
  A fitted model with mean \<open>m\<close>, basis \<open>U\<close> and per-mode standard deviations \<open>sd\<close>: the
  three attributes that \<open>newShape\<close> reads are set, the basis is a proper \<open>(D, K)\<close> array,
  the mean has \<open>D\<close> entries and there is one standard deviation per mode.
\<close>

definition fitted :: "pca \<Rightarrow> vec \<Rightarrow> mat \<Rightarrow> vec \<Rightarrow> bool" where
  "fitted st m U sd =
     (pca_mean st = Some m \<and> pca_U st = Some U \<and> pc_stdevs st = Some sd \<and>
      wf_mat U \<and> length m = nrows U \<and> length sd = ncols U)"

text \<open>
  The shapes NumPy documents for \<open>np.linalg.svd(M, full_matrices=False)\<close> on a \<open>(D, N)\<close>
  array: \<open>U\<close> is \<open>(D, K)\<close>, \<open>S\<close> is \<open>(K,)\<close> and \<open>Vh\<close> is \<open>(K, N)\<close>, with \<open>K = min(D, N)\<close>.
\<close>

definition svd_shapes :: "svd \<Rightarrow> bool" where
  "svd_shapes svd =
     (\<forall>M U S V. svd M = Inr (U, S, V) \<longrightarrow>
        wf_mat U \<and> nrows U = nrows M \<and> ncols U = min (nrows M) (ncols M) \<and>
        length S = min (nrows M) (ncols M) \<and>
        wf_mat V \<and> nrows V = min (nrows M) (ncols M) \<and> ncols V = ncols M)"

text \<open>
  The standard deviation of the entries of a row in the words of the specification: the
  square root of the average squared deviation from the row's average, both averages
  taken with the divisor \<open>N\<close>, the number of entries (no Bessel correction).
\<close>

definition pop_std :: "vec \<Rightarrow> fl" where
  "pop_std w =
     (let N = length w; mu = fdivn (\<Sum>n<N. w ! n) N
      in fsqrt (fdivn (\<Sum>n<N. fsub (w ! n) mu * fsub (w ! n) mu) N))"

text \<open>
  The array \<open>self.pca_U * self.pc_stdevs\<close> of the \<open>'std'\<close> branch, for one standard
  deviation per column of the basis.
\<close>

definition scaled_basis :: "mat \<Rightarrow> vec \<Rightarrow> mat" where
  "scaled_basis U sd = Mat (ncols U) (map (\<lambda>r. map2 (*) r sd) (rows U))"

definition finite_vec :: "vec \<Rightarrow> bool" where
  "finite_vec v = list_all is_finite v"

definition finite_mat :: "mat \<Rightarrow> bool" where
  "finite_mat M = list_all finite_vec (rows M)"


text \<open>
  The objects on which no call of \<open>pca\<close> has succeeded yet: a new object, and whatever
  the methods make of such an object, a call of \<open>pca\<close> included as long as it raises.
  (\<open>newShape\<close> assigns no attribute.) The SVD routine of a call is any routine with
  NumPy's output shapes.
\<close>

inductive unfitted :: "pca \<Rightarrow> bool" where
  u_init: "unfitted init"
| u_setBaseline: "unfitted st \<Longrightarrow> unfitted (snd (setBaseline load path st))"
| u_importFolder: "unfitted st \<Longrightarrow> unfitted (snd (importFolder listdir load path unify st))"
| u_sliceFiles: "unfitted st \<Longrightarrow> unfitted (sliceFiles planarTrim height st)"
| u_register: "unfitted st \<Longrightarrow> unfitted (snd (register np registration st))"
| u_pca_raises: "unfitted st \<Longrightarrow> svd_shapes svd \<Longrightarrow> pca svd st = (Inl e, st') \<Longrightarrow> unfitted st'"


section \<open>A worked corpus\<close>

text \<open>
  Concrete inputs for the examples below. The SVD is a parameter of the model, so an
  example needs a routine: \<open>svd_table\<close> answers from a list of known decompositions and
  raises \<open>LinAlgError\<close> (NumPy's "SVD did not converge") on every other matrix.
\<close>

definition svd_table :: "(mat \<times> mat \<times> vec \<times> mat) list \<Rightarrow> svd" where
  "svd_table tbl M = (case map_of tbl M of Some r \<Rightarrow> Inr r | None \<Rightarrow> Inl LinAlgError)"

definition pt :: "real \<Rightarrow> real \<Rightarrow> real \<Rightarrow> AmpObject" where
  "pt x y z = \<lparr>vert = [(Fin x, Fin y, Fin z)], faces = []\<rparr>"

text \<open>
  Four one-vertex shapes. Their matrix, centred, has three orthogonal rows of norm 2, so
  the identity, \<open>[2, 2, 2]\<close> and the rows halved are a thin SVD of it (\<open>K = 3\<close> modes).
\<close>

definition ex_shapes :: "AmpObject list" where
  "ex_shapes = [pt 2 2 2, pt 2 0 0, pt 0 2 0, pt 0 0 2]"

definition ex_X :: mat where
  "ex_X = Mat 4 [[Fin 2, Fin 2, Fin 0, Fin 0],
                 [Fin 2, Fin 0, Fin 2, Fin 0],
                 [Fin 2, Fin 0, Fin 0, Fin 2]]"

definition ex_centred :: mat where
  "ex_centred = Mat 4 [[Fin 1, Fin 1, Fin (- 1), Fin (- 1)],
                       [Fin 1, Fin (- 1), Fin 1, Fin (- 1)],
                       [Fin 1, Fin (- 1), Fin (- 1), Fin 1]]"

definition ex_U :: mat where
  "ex_U = Mat 3 [[Fin 1, Fin 0, Fin 0], [Fin 0, Fin 1, Fin 0], [Fin 0, Fin 0, Fin 1]]"

definition ex_V :: mat where
  "ex_V = Mat 4 [[Fin (1/2), Fin (1/2), Fin (- 1/2), Fin (- 1/2)],
                 [Fin (1/2), Fin (- 1/2), Fin (1/2), Fin (- 1/2)],
                 [Fin (1/2), Fin (- 1/2), Fin (- 1/2), Fin (1/2)]]"

text \<open>
  One shape alone: the centred matrix is the zero column, of which a unit column, \<open>[0]\<close>
  and \<open>[[1]]\<close> are a thin SVD (\<open>K = 1\<close>).
\<close>

definition ex_zero_col :: mat where
  "ex_zero_col = Mat 1 [[Fin 0], [Fin 0], [Fin 0]]"

definition ex_U1 :: mat where
  "ex_U1 = Mat 1 [[Fin 1], [Fin 0], [Fin 0]]"

definition ex_svd :: svd where
  "ex_svd = svd_table
     [(ex_centred, (ex_U, [Fin 2, Fin 2, Fin 2], ex_V)),
      (ex_zero_col, (ex_U1, [Fin 0], Mat 1 [[Fin 1]]))]"

text \<open>The registration of the examples returns its target as it is.\<close>

definition ex_reg :: "AmpObject \<Rightarrow> AmpObject \<Rightarrow> AmpObject" where
  "ex_reg b t = t"

definition ex_start :: pca where
  "ex_start = init\<lparr>shapes := ex_shapes, baseline := Some (pt 2 2 2)\<rparr>"

definition ex_registered :: pca where
  "ex_registered = ex_start\<lparr>registered := Some ex_shapes, X := Some (A2 ex_X)\<rparr>"

definition ex_model :: pca where
  "ex_model = ex_registered\<lparr>pca_mean := Some [Fin 1, Fin 1, Fin 1],
     pca_U := Some ex_U, pca_S := Some [Fin 2, Fin 2, Fin 2], pca_V := Some ex_V,
     pc_weights := Some ex_centred, pc_stdevs := Some [Fin 1, Fin 1, Fin 1]\<rparr>"

text \<open>The fitted example with a data matrix that holds a NaN put in place of its own.\<close>

definition ex_X_nan :: mat where
  "ex_X_nan = Mat 4 [[NaN, Fin 2, Fin 0, Fin 0],
                     [Fin 2, Fin 0, Fin 2, Fin 0],
                     [Fin 2, Fin 0, Fin 0, Fin 2]]"

definition ex_model_nan :: pca where
  "ex_model_nan = ex_model\<lparr>X := Some (A2 ex_X_nan)\<rparr>"

text \<open>
  The four shapes again, \<open>2^600\<close> times as large. Every coordinate is a float64 value,
  and the same basis and rows with singular values \<open>2 * 2^600\<close> are a thin SVD of the
  centred matrix; but the squared deviations of the scores, \<open>2^1200\<close>, are beyond the
  float64 range, so the standard deviations that \<open>pca\<close> stores are infinite.
\<close>

definition big :: real where
  "big = 2 ^ 600"

definition ex_big_shapes :: "AmpObject list" where
  "ex_big_shapes =
     [pt (2 * big) (2 * big) (2 * big), pt (2 * big) 0 0, pt 0 (2 * big) 0, pt 0 0 (2 * big)]"

definition ex_big_X :: mat where
  "ex_big_X = Mat 4 [[Fin (2 * big), Fin (2 * big), Fin 0, Fin 0],
                     [Fin (2 * big), Fin 0, Fin (2 * big), Fin 0],
                     [Fin (2 * big), Fin 0, Fin 0, Fin (2 * big)]]"

definition ex_big_centred :: mat where
  "ex_big_centred = Mat 4 [[Fin big, Fin big, Fin (- big), Fin (- big)],
                           [Fin big, Fin (- big), Fin big, Fin (- big)],
                           [Fin big, Fin (- big), Fin (- big), Fin big]]"

definition ex_big_svd :: svd where
  "ex_big_svd = svd_table
     [(ex_big_centred, (ex_U, [Fin (2 * big), Fin (2 * big), Fin (2 * big)], ex_V))]"

definition ex_big_start :: pca where
  "ex_big_start = init\<lparr>shapes := ex_big_shapes, baseline := Some (pt (2 * big) (2 * big) (2 * big))\<rparr>"

definition ex_big_registered :: pca where
  "ex_big_registered = ex_big_start\<lparr>registered := Some ex_big_shapes, X := Some (A2 ex_big_X)\<rparr>"

definition ex_big_model :: pca where
  "ex_big_model = ex_big_registered\<lparr>pca_mean := Some [Fin big, Fin big, Fin big],
     pca_U := Some ex_U, pca_S := Some [Fin (2 * big), Fin (2 * big), Fin (2 * big)],
     pca_V := Some ex_V, pc_weights := Some ex_big_centred,
     pc_stdevs := Some [PInf, PInf, PInf]\<rparr>"

text \<open>The fitted example with an infinity in its basis.\<close>

definition ex_U_inf :: mat where
  "ex_U_inf = Mat 3 [[PInf, Fin 0, Fin 0], [Fin 0, Fin 1, Fin 0], [Fin 0, Fin 0, Fin 1]]"

definition ex_model_inf :: pca where
  "ex_model_inf = ex_model\<lparr>pca_U := Some ex_U_inf\<rparr>"

text \<open>A corpus of one shape, and a corpus of two shapes with one and two vertices.\<close>

definition ex_single :: pca where
  "ex_single = init\<lparr>shapes := [pt 1 2 3], baseline := Some (pt 1 2 3)\<rparr>"

definition ex_single_registered :: pca where
  "ex_single_registered = ex_single\<lparr>registered := Some [pt 1 2 3],
     X := Some (A2 (Mat 1 [[Fin 1], [Fin 2], [Fin 3]]))\<rparr>"

definition ex_single_model :: pca where
  "ex_single_model = ex_single_registered\<lparr>pca_mean := Some [Fin 1, Fin 2, Fin 3],
     pca_U := Some ex_U1, pca_S := Some [Fin 0], pca_V := Some (Mat 1 [[Fin 1]]),
     pc_weights := Some (Mat 1 [[Fin 0]]), pc_stdevs := Some [Fin 0]\<rparr>"

definition two_pts :: AmpObject where
  "two_pts = \<lparr>vert = [(Fin 0, Fin 0, Fin 0), (Fin 1, Fin 0, Fin 0)], faces = []\<rparr>"

definition ex_ragged :: pca where
  "ex_ragged = init\<lparr>shapes := [pt 1 2 3, two_pts], baseline := Some (pt 1 2 3)\<rparr>"


section \<open>Properties\<close>

subsection \<open>Overflow\<close>

lemma threshold_large: "(2::real) ^ 1000 \<le> overflow_threshold"
proof -
  have "(2::real) ^ 1024 = 2 ^ 54 * 2 ^ 970" by (simp flip: power_add)
  moreover have "(2::real) ^ 1000 = 2 ^ 30 * 2 ^ 970" by (simp flip: power_add)
  ultimately have "overflow_threshold - 2 ^ 1000 = (2 ^ 54 - 1 - 2 ^ 30) * (2::real) ^ 970"
    unfolding overflow_threshold_def by (simp add: algebra_simps)
  moreover have "0 \<le> (2 ^ 54 - 1 - 2 ^ 30) * (2::real) ^ 970" by simp
  ultimately show ?thesis by linarith
qed

lemma round_overflow_Fin: "\<bar>r\<bar> < 2 ^ 1000 \<Longrightarrow> round_overflow r = Fin r"
  using threshold_large by (auto simp: round_overflow_def)

lemma round_overflow_small: "\<bar>r\<bar> \<le> 1000 \<Longrightarrow> round_overflow r = Fin r"
proof (rule round_overflow_Fin)
  assume "\<bar>r\<bar> \<le> 1000"
  moreover have "(1000::real) < 2 ^ 10" by simp
  moreover have "(2::real) ^ 10 \<le> 2 ^ 1000" by (rule power_increasing) simp_all
  ultimately show "\<bar>r\<bar> < 2 ^ 1000" by linarith
qed

lemma round_overflow_PInf: "2 ^ 1024 \<le> r \<Longrightarrow> round_overflow r = PInf"
  by (auto simp: round_overflow_def overflow_threshold_def intro: order_trans)

subsection \<open>Arrays and broadcasting\<close>

lemma sum_list_map2_nth:
  "length r = length c \<Longrightarrow> sum_list (map2 (*) r c) = (\<Sum>k<length c. r ! k * c ! k)"
  for r c :: vec
  by (simp add: sum_list_sum_nth atLeast0LessThan)

lemma wf_mat_row: "wf_mat U \<Longrightarrow> d < nrows U \<Longrightarrow> length (rows U ! d) = ncols U"
  by (simp add: wf_mat_def nrows_def list_all_length)

lemma add_bc_same:
  "length a = length b \<Longrightarrow> add_bc a b = Inr (map (\<lambda>d. a ! d + b ! d) [0..<length a])"
  unfolding add_bc_def by (simp, intro nth_equalityI) simp_all

lemma mul_bc_same:
  "length v = ncols M \<Longrightarrow> mul_bc M v = Inr (Mat (ncols M) (map (\<lambda>r. map2 (*) r v) (rows M)))"
  by (simp add: mul_bc_def)

lemma wf_mat_mul:
  "wf_mat M \<Longrightarrow> length v = ncols M \<Longrightarrow> wf_mat (Mat (ncols M) (map (\<lambda>r. map2 (*) r v) (rows M)))"
  by (simp add: wf_mat_def list_all_length)

lemma sum_axis1_mul:
  assumes "wf_mat M" and "length v = ncols M"
  shows "sum_axis1 (Mat (ncols M) (map (\<lambda>r. map2 (*) r v) (rows M)))
      = map (\<lambda>d. \<Sum>k<ncols M. rows M ! d ! k * v ! k) [0..<nrows M]"
  unfolding sum_axis1_def using assms
  by (intro nth_equalityI) (simp_all add: nrows_def wf_mat_row sum_list_map2_nth)

subsection \<open>Synthesis with a coefficient vector of full length\<close>

lemma newShape_eigs_fitted:
  assumes "fitted st m U sd" and "length c = ncols U"
  shows "newShape st c ''eigs'' =
    Inr (map (\<lambda>d. m ! d + (\<Sum>k<ncols U. rows U ! d ! k * c ! k)) [0..<nrows U])"
  using assms
  by (simp add: fitted_def newShape_def mul_bc_same sum_axis1_mul add_bc_same)

lemma newShape_std_fitted:
  assumes "fitted st m U sd" and "length c = ncols U"
  shows "newShape st c ''std'' =
    Inr (map (\<lambda>d. m ! d + (\<Sum>k<ncols U. rows U ! d ! k * sd ! k * c ! k)) [0..<nrows U])"
proof -
  let ?P = "Mat (ncols U) (map (\<lambda>r. map2 (*) r sd) (rows U))"
  have wfU: "wf_mat U" and lsd: "length sd = ncols U" and lm: "length m = nrows U"
    using assms(1) by (simp_all add: fitted_def)
  have wfP: "wf_mat ?P" using wfU lsd by (rule wf_mat_mul)
  have nP: "nrows ?P = nrows U" by (simp add: nrows_def)
  have rowP: "rows ?P ! d ! k = rows U ! d ! k * sd ! k" if "d < nrows U" "k < ncols U" for d k
    using that wf_mat_row[OF wfU that(1)] lsd by (simp add: nrows_def)
  have s: "sum_axis1 (Mat (ncols ?P) (map (\<lambda>r. map2 (*) r c) (rows ?P)))
      = map (\<lambda>d. \<Sum>k<ncols U. rows U ! d ! k * sd ! k * c ! k) [0..<nrows U]"
    using sum_axis1_mul[OF wfP, of c] assms(2) rowP by (simp add: nP)
  have m2: "mul_bc ?P c = Inr (Mat (ncols ?P) (map (\<lambda>r. map2 (*) r c) (rows ?P)))"
    using assms(2) by (intro mul_bc_same) simp
  show ?thesis
    using assms lsd lm
    by (simp add: fitted_def newShape_def mul_bc_same[of sd U] m2 s add_bc_same del: mat.sel)
qed

subsection \<open>The method \<open>pca\<close>\<close>

lemma np_std_row_pop_std: "np_std_row (length r) r = pop_std r"
proof -
  have a: "sum_list r = (\<Sum>n<length r. r ! n)"
    by (simp add: sum_list_sum_nth atLeast0LessThan)
  have b: "sum_list (map f r) = (\<Sum>n<length r. f (r ! n))" for f :: "fl \<Rightarrow> fl"
    by (simp add: sum_list_sum_nth atLeast0LessThan)
  show ?thesis
    by (simp add: np_std_row_def pop_std_def Let_def a b)
qed

lemma wf_np_dot: "np_dot A B = Inr W \<Longrightarrow> wf_mat W \<and> nrows W = nrows A \<and> ncols W = ncols B"
  by (auto simp: np_dot_def wf_mat_def nrows_def list_all_length split: if_splits)

lemma np_std_axis1_pop_std: "wf_mat W \<Longrightarrow> np_std_axis1 W = map pop_std (rows W)"
  by (auto simp: np_std_axis1_def wf_mat_def list_all_iff np_std_row_pop_std[symmetric])

lemma pca_success:
  assumes "pca svd st = (Inr (), st')"
  shows "\<exists>M U S V W. X st = Some (A2 M) \<and> svd (sub_col M (mean_axis1 M)) = Inr (U, S, V) \<and>
     np_dot (np_diag S) V = Inr W \<and>
     st' = st\<lparr>pca_mean := Some (mean_axis1 M), pca_U := Some U, pca_S := Some S,
              pca_V := Some V, pc_weights := Some W, pc_stdevs := Some (np_std_axis1 W)\<rparr>"
  using assms
  by (auto simp: pca_def Let_def split: option.splits ndarray.splits sum.splits prod.splits)

lemma pca_sets_mean:
  "X st = Some (A2 M) \<Longrightarrow> pca_mean (snd (pca svd st)) = Some (mean_axis1 M)"
  by (simp add: pca_def Let_def split: sum.splits prod.splits)

lemma pca_fitted:
  assumes "svd_shapes svd" and "X st = Some (A2 M)" and "pca svd st = (Inr (), st')"
  shows "\<exists>U sd. fitted st' (mean_axis1 M) U sd \<and> ncols U = min (nrows M) (ncols M)"
proof -
  from pca_success[OF assms(3)] assms(2) obtain U S V W where
    svd: "svd (sub_col M (mean_axis1 M)) = Inr (U, S, V)" and
    dot: "np_dot (np_diag S) V = Inr W" and
    st': "st' = st\<lparr>pca_mean := Some (mean_axis1 M), pca_U := Some U, pca_S := Some S,
              pca_V := Some V, pc_weights := Some W, pc_stdevs := Some (np_std_axis1 W)\<rparr>"
    by auto
  have sh: "nrows (sub_col M (mean_axis1 M)) = nrows M" "ncols (sub_col M (mean_axis1 M)) = ncols M"
    by (simp_all add: sub_col_def mean_axis1_def nrows_def)
  from assms(1) svd have c: "wf_mat U" "nrows U = nrows M" "ncols U = min (nrows M) (ncols M)"
    "length S = min (nrows M) (ncols M)"
    unfolding svd_shapes_def sh[symmetric] by blast+
  from wf_np_dot[OF dot] have "nrows W = length S" by (simp add: np_diag_def nrows_def)
  then have "fitted st' (mean_axis1 M) U (np_std_axis1 W)"
    using c by (simp add: fitted_def st' np_std_axis1_def mean_axis1_def nrows_def)
  then show ?thesis using c by blast
qed

lemma pca_stdevs:
  assumes "pca svd st = (Inr (), st')"
  shows "\<exists>W. pc_weights st' = Some W \<and> pc_stdevs st' = Some (map pop_std (rows W))"
proof -
  from pca_success[OF assms] obtain S V W where
    dot: "np_dot (np_diag S) V = Inr W" and
    "pc_weights st' = Some W" "pc_stdevs st' = Some (np_std_axis1 W)"
    by auto
  then show ?thesis using wf_np_dot[OF dot] by (simp add: np_std_axis1_pop_std)
qed

subsection \<open>The worked corpus, step by step\<close>

lemma ex_register: "register np ex_reg ex_start = (Inr (), ex_registered)"
  by (simp add: ex_registered_def register_def ex_start_def init_def ex_shapes_def pt_def
      ex_reg_def ex_X_def np_array_def flatten_def transpose_mat_def nrows_def Let_def
      upt_rec[of _ "numeral _"] upt_rec[of 0])

lemma ex_mean: "mean_axis1 ex_X = [Fin 1, Fin 1, Fin 1]"
  by (simp add: mean_axis1_def ex_X_def zero_fl_def round_overflow_small)

lemma ex_sub: "sub_col ex_X [Fin 1, Fin 1, Fin 1] = ex_centred"
  by (simp add: sub_col_def fsub_def ex_centred_def ex_X_def)

lemma ex_dot: "np_dot (np_diag [Fin 2, Fin 2, Fin 2]) ex_V = Inr ex_centred"
  by (simp add: np_dot_def np_diag_def ex_V_def ex_centred_def nrows_def zero_fl_def round_overflow_small
      upt_rec[of _ "numeral _"] upt_rec[of 0])

lemma ex_std: "np_std_axis1 ex_centred = [Fin 1, Fin 1, Fin 1]"
  by (simp add: np_std_axis1_def np_std_row_def ex_centred_def fsub_def zero_fl_def round_overflow_small)

lemma ex_svd_centred: "ex_svd ex_centred = Inr (ex_U, [Fin 2, Fin 2, Fin 2], ex_V)"
  by (simp add: ex_svd_def svd_table_def)

lemma ex_pca: "pca ex_svd ex_registered = (Inr (), ex_model)"
  by (simp add: pca_def ex_registered_def ex_model_def ex_mean ex_sub ex_svd_centred ex_dot
      ex_std Let_def)

lemma ex_model_fitted: "fitted ex_model [Fin 1, Fin 1, Fin 1] ex_U [Fin 1, Fin 1, Fin 1]"
  by (simp add: fitted_def ex_model_def ex_U_def wf_mat_def nrows_def)

subsection \<open>Synthesis on a fitted model\<close>

text \<open>
  Claim C1. On a fitted model with \<open>K\<close> modes, \<open>newShape\<close> with \<open>scale = 'eigs'\<close> and a
  coefficient vector \<open>c\<close> of length exactly \<open>K\<close> returns the stored mean plus the basis
  applied to \<open>c\<close>: entry \<open>d\<close> of the result is \<open>mean[d]\<close> plus the sum over the modes \<open>k\<close> of
  \<open>basis[d, k] * c[k]\<close>.
\<close>

theorem C1_newShape_eigs:
  assumes "fitted st m U sd" and "length c = ncols U"
  shows "newShape st c ''eigs'' =
    Inr (map (\<lambda>d. m ! d + (\<Sum>k<ncols U. rows U ! d ! k * c ! k)) [0..<nrows U])"
  using assms by (rule newShape_eigs_fitted)

theorem C1_newShape_eigs_witness:
  "fitted ex_model [Fin 1, Fin 1, Fin 1] ex_U [Fin 1, Fin 1, Fin 1] \<and>
   length [Fin 3, Fin 4, Fin 5] = ncols ex_U \<and>
   newShape ex_model [Fin 3, Fin 4, Fin 5] ''eigs'' = Inr [Fin 4, Fin 5, Fin 6]"
proof -
  have l: "length [Fin 3, Fin 4, Fin 5] = ncols ex_U" by (simp add: ex_U_def)
  have "newShape ex_model [Fin 3, Fin 4, Fin 5] ''eigs'' = Inr [Fin 4, Fin 5, Fin 6]"
    using C1_newShape_eigs[OF ex_model_fitted l]
    by (simp add: ex_U_def nrows_def lessThan_Suc eval_nat_numeral upt_rec[of _ "Suc _"] upt_rec[of 0] zero_fl_def round_overflow_small)
  with ex_model_fitted l show ?thesis by simp
qed




text \<open>
  Claim C2. On a fitted model with \<open>K\<close> modes, \<open>newShape\<close> with \<open>scale = 'std'\<close> and a
  coefficient vector \<open>c\<close> of length exactly \<open>K\<close> returns, at entry \<open>d\<close>, \<open>mean[d]\<close> plus the
  sum over the modes \<open>k\<close> of \<open>basis[d, k] * modeStdDevs[k] * c[k]\<close>, where the standard
  deviations that \<open>pca\<close> stored are those of the rows of the scores matrix \<open>pc_weights\<close>,
  taken with the divisor \<open>N\<close> (no Bessel correction).
\<close>

theorem C2_newShape_std:
  assumes "pca svd st0 = (Inr (), st)" and "fitted st m U sd" and "length c = ncols U"
  shows "(\<exists>S V W. pca_S st = Some S \<and> pca_V st = Some V \<and> np_dot (np_diag S) V = Inr W \<and>
            pc_weights st = Some W \<and> sd = map pop_std (rows W)) \<and>
    newShape st c ''std'' =
      Inr (map (\<lambda>d. m ! d + (\<Sum>k<ncols U. rows U ! d ! k * sd ! k * c ! k)) [0..<nrows U])"
proof -
  from pca_success[OF assms(1)] obtain S V W where
    dot: "np_dot (np_diag S) V = Inr W" and
    a: "pca_S st = Some S" "pca_V st = Some V" "pc_weights st = Some W"
      "pc_stdevs st = Some (np_std_axis1 W)"
    by auto
  from a(4) assms(2) have "sd = np_std_axis1 W" by (simp add: fitted_def)
  then have "sd = map pop_std (rows W)"
    using wf_np_dot[OF dot] by (simp add: np_std_axis1_pop_std)
  with dot a show ?thesis
    using newShape_std_fitted[OF assms(2,3)] by simp
qed

theorem C2_newShape_std_witness:
  "pca ex_svd ex_registered = (Inr (), ex_model) \<and>
   fitted ex_model [Fin 1, Fin 1, Fin 1] ex_U [Fin 1, Fin 1, Fin 1] \<and>
   length [Fin 3, Fin 4, Fin 5] = ncols ex_U \<and>
   pc_weights ex_model = Some ex_centred \<and>
   [Fin 1, Fin 1, Fin 1] = map pop_std (rows ex_centred) \<and>
   newShape ex_model [Fin 3, Fin 4, Fin 5] ''std'' = Inr [Fin 4, Fin 5, Fin 6]"
proof -
  have l: "length [Fin 3, Fin 4, Fin 5] = ncols ex_U" by (simp add: ex_U_def)
  have w: "pc_weights ex_model = Some ex_centred" by (simp add: ex_model_def)
  from C2_newShape_std[OF ex_pca ex_model_fitted l] w
  have "[Fin 1, Fin 1, Fin 1] = map pop_std (rows ex_centred)"
    and "newShape ex_model [Fin 3, Fin 4, Fin 5] ''std'' = Inr [Fin 4, Fin 5, Fin 6]"
    by (auto simp: ex_U_def nrows_def lessThan_Suc eval_nat_numeral upt_rec[of _ "Suc _"]
        upt_rec[of 0] zero_fl_def round_overflow_small)
  with ex_pca ex_model_fitted l w show ?thesis by simp
qed

lemma times_zero_finite: "is_finite x \<Longrightarrow> x * 0 = (0::fl)"
  by (cases x) (simp_all add: zero_fl_def round_overflow_small)

lemma finite_mat_nth:
  "finite_mat U \<Longrightarrow> d < nrows U \<Longrightarrow> k < length (rows U ! d) \<Longrightarrow> is_finite (rows U ! d ! k)"
  by (simp add: finite_mat_def finite_vec_def nrows_def list_all_length)

lemma mul_bc_scaled_basis: "length sd = ncols U \<Longrightarrow> mul_bc U sd = Inr (scaled_basis U sd)"
  by (simp add: mul_bc_def scaled_basis_def)

lemma scaled_basis_nth:
  assumes "wf_mat U" and "length sd = ncols U" and "d < nrows U" and "k < ncols U"
  shows "rows (scaled_basis U sd) ! d ! k = rows U ! d ! k * sd ! k"
    and "length (rows (scaled_basis U sd) ! d) = ncols U"
  using assms wf_mat_row[OF assms(1,3)] by (simp_all add: scaled_basis_def nrows_def)

subsection \<open>The large corpus, step by step\<close>

lemma big_bounds: "0 < big" "\<bar>big\<bar> < 2 ^ 1000" "2 ^ 1024 \<le> big * big"
proof -
  show "0 < big" by (simp add: big_def)
  have "(2::real) ^ 600 < 2 ^ 1000" by (rule power_strict_increasing) simp_all
  then show "\<bar>big\<bar> < 2 ^ 1000" by (simp add: big_def)
  have "big * big = 2 ^ 1200" by (simp add: big_def flip: power_add)
  moreover have "(2::real) ^ 1024 \<le> 2 ^ 1200" by (rule power_increasing) simp_all
  ultimately show "2 ^ 1024 \<le> big * big" by simp
qed

lemma round_overflow_big:
  "round_overflow big = Fin big" "round_overflow (- big) = Fin (- big)"
  "round_overflow (big * big) = PInf"
  using big_bounds by (simp_all add: round_overflow_Fin round_overflow_PInf)

lemma ex_big_register: "register np ex_reg ex_big_start = (Inr (), ex_big_registered)"
  by (simp add: ex_big_registered_def register_def ex_big_start_def init_def ex_big_shapes_def
      pt_def ex_reg_def ex_big_X_def np_array_def flatten_def transpose_mat_def nrows_def Let_def
      upt_rec[of _ "numeral _"] upt_rec[of 0])

lemma ex_big_mean: "mean_axis1 ex_big_X = [Fin big, Fin big, Fin big]"
  by (simp add: mean_axis1_def ex_big_X_def zero_fl_def)

lemma ex_big_sub: "sub_col ex_big_X [Fin big, Fin big, Fin big] = ex_big_centred"
  by (simp add: sub_col_def fsub_def ex_big_centred_def ex_big_X_def)

lemma ex_big_dot:
  "np_dot (np_diag [Fin (2 * big), Fin (2 * big), Fin (2 * big)]) ex_V = Inr ex_big_centred"
  by (simp add: np_dot_def np_diag_def ex_V_def ex_big_centred_def nrows_def zero_fl_def
      round_overflow_small round_overflow_big upt_rec[of _ "numeral _"] upt_rec[of 0])

lemma ex_big_std: "np_std_axis1 ex_big_centred = [PInf, PInf, PInf]"
  by (simp add: np_std_axis1_def np_std_row_def ex_big_centred_def fsub_def zero_fl_def
      round_overflow_big)

lemma ex_big_pca: "pca ex_big_svd ex_big_registered = (Inr (), ex_big_model)"
  by (simp add: pca_def ex_big_registered_def ex_big_model_def ex_big_mean ex_big_sub
      ex_big_svd_def svd_table_def ex_big_dot ex_big_std Let_def)

lemma ex_big_fitted: "fitted ex_big_model [Fin big, Fin big, Fin big] ex_U [PInf, PInf, PInf]"
  by (simp add: fitted_def ex_big_model_def ex_U_def wf_mat_def nrows_def)

lemma ex_inf_fitted: "fitted ex_model_inf [Fin 1, Fin 1, Fin 1] ex_U_inf [Fin 1, Fin 1, Fin 1]"
  by (simp add: fitted_def ex_model_inf_def ex_model_def ex_U_inf_def wf_mat_def nrows_def)

text \<open>
  Claim C4 (as amended). On a fitted model with \<open>K\<close> modes, \<open>newShape\<close> with the all-zeros
  coefficient vector of length \<open>K\<close> returns exactly the stored mean with \<open>scale = 'eigs'\<close>
  when every entry of the stored basis is a finite number, and with \<open>scale = 'std'\<close> when
  every entry of \<open>pca_U * pc_stdevs\<close> is a finite number. Nothing in the code keeps an
  infinity or a NaN out of these arrays, and a zero coefficient does not remove one:
  \<open>inf * 0\<close> is NaN.
\<close>

theorem C4_newShape_zeros:
  assumes "fitted st m U sd"
  shows "(finite_mat U \<longrightarrow> newShape st (replicate (ncols U) 0) ''eigs'' = Inr m) \<and>
         (finite_mat (scaled_basis U sd) \<longrightarrow>
            newShape st (replicate (ncols U) 0) ''std'' = Inr m)"
proof (intro conjI impI)
  have wfU: "wf_mat U" and lsd: "length sd = ncols U" and lm: "length m = nrows U"
    using assms by (simp_all add: fitted_def)
  {
    assume f: "finite_mat U"
    have e: "(\<Sum>k<ncols U. rows U ! d ! k * replicate (ncols U) 0 ! k) = 0" if "d < nrows U" for d
      using that finite_mat_nth[OF f that] wf_mat_row[OF wfU that]
      by (intro sum.neutral) (simp add: times_zero_finite)
    have "map (\<lambda>d. m ! d + (\<Sum>k<ncols U. rows U ! d ! k * replicate (ncols U) 0 ! k))
        [0..<nrows U] = m"
      using lm e by (intro nth_equalityI) simp_all
    then show "newShape st (replicate (ncols U) 0) ''eigs'' = Inr m"
      using newShape_eigs_fitted[OF assms, of "replicate (ncols U) 0"] by simp
  }
  {
    assume f: "finite_mat (scaled_basis U sd)"
    have n: "nrows (scaled_basis U sd) = nrows U" by (simp add: scaled_basis_def nrows_def)
    have p: "is_finite (rows U ! d ! k * sd ! k)" if "d < nrows U" "k < ncols U" for d k
      using finite_mat_nth[OF f, of d k] scaled_basis_nth[OF wfU lsd that] that
      by (simp add: n)
    have s: "(\<Sum>k<ncols U. rows U ! d ! k * sd ! k * replicate (ncols U) 0 ! k) = 0"
      if "d < nrows U" for d
      using that by (intro sum.neutral) (simp add: p times_zero_finite)
    have "map (\<lambda>d. m ! d + (\<Sum>k<ncols U. rows U ! d ! k * sd ! k * replicate (ncols U) 0 ! k))
        [0..<nrows U] = m"
      using lm s by (intro nth_equalityI) simp_all
    then show "newShape st (replicate (ncols U) 0) ''std'' = Inr m"
      using newShape_std_fitted[OF assms, of "replicate (ncols U) 0"] by simp
  }
qed

theorem C4_newShape_zeros_witness:
  "fitted ex_model [Fin 1, Fin 1, Fin 1] ex_U [Fin 1, Fin 1, Fin 1] \<and>
   finite_mat ex_U \<and> finite_mat (scaled_basis ex_U [Fin 1, Fin 1, Fin 1]) \<and>
   newShape ex_model [0, 0, 0] ''eigs'' = Inr [Fin 1, Fin 1, Fin 1] \<and>
   newShape ex_model [0, 0, 0] ''std'' = Inr [Fin 1, Fin 1, Fin 1]"
proof -
  have f: "finite_mat ex_U" by (simp add: finite_mat_def finite_vec_def ex_U_def)
  have g: "finite_mat (scaled_basis ex_U [Fin 1, Fin 1, Fin 1])"
    by (simp add: finite_mat_def finite_vec_def scaled_basis_def ex_U_def round_overflow_small)
  have r: "replicate (ncols ex_U) 0 = [0, 0, 0::fl]" by (simp add: ex_U_def eval_nat_numeral)
  show ?thesis
    using C4_newShape_zeros[OF ex_model_fitted] f g ex_model_fitted by (simp add: r)
qed

text \<open>
  The claim as stated fails in both modes. The large corpus is finite data and \<open>pca\<close>
  fits it, but its standard deviations have overflowed: with \<open>'std'\<close> the zero vector
  gives NaN in every entry, not the mean. And on a model whose basis holds an infinity,
  the zero vector gives NaN in that row with \<open>'eigs'\<close>.
\<close>

theorem C4_zeros_not_mean_counterexample:
  "finite_mat ex_big_X \<and>
   register RaggedError ex_reg ex_big_start = (Inr (), ex_big_registered) \<and>
   pca ex_big_svd ex_big_registered = (Inr (), ex_big_model) \<and>
   fitted ex_big_model [Fin big, Fin big, Fin big] ex_U [PInf, PInf, PInf] \<and>
   newShape ex_big_model [0, 0, 0] ''std'' = Inr [NaN, NaN, NaN] \<and>
   fitted ex_model_inf [Fin 1, Fin 1, Fin 1] ex_U_inf [Fin 1, Fin 1, Fin 1] \<and>
   newShape ex_model_inf [0, 0, 0] ''eigs'' = Inr [NaN, Fin 1, Fin 1]"
proof -
  have a: "finite_mat ex_big_X" by (simp add: finite_mat_def finite_vec_def ex_big_X_def)
  have b: "newShape ex_big_model [0, 0, 0] ''std'' = Inr [NaN, NaN, NaN]"
    by (simp add: newShape_def ex_big_model_def ex_big_registered_def ex_U_def mul_bc_def
        sum_axis1_def add_bc_def zero_fl_def)
  have c: "newShape ex_model_inf [0, 0, 0] ''eigs'' = Inr [NaN, Fin 1, Fin 1]"
    by (simp add: newShape_def ex_model_inf_def ex_model_def ex_U_inf_def mul_bc_def
        sum_axis1_def add_bc_def zero_fl_def round_overflow_small)
  from a b c ex_big_register[of RaggedError] ex_big_pca ex_big_fitted ex_inf_fitted
  show ?thesis by simp
qed

text \<open>
  Claim C10. On a fitted model, \<open>newShape\<close> with a scale string other than \<open>'eigs'\<close> and
  \<open>'std'\<close> returns no shape for any coefficient vector: the local \<open>sf\<close> was never
  assigned, and the call fails with \<open>UnboundLocalError\<close>.
\<close>

theorem C10_newShape_other_scale:
  assumes "fitted st m U sd" and "scale \<noteq> ''eigs''" and "scale \<noteq> ''std''"
  shows "newShape st sfs scale = Inl UnboundLocalError"
  using assms by (simp add: newShape_def fitted_def)

theorem C10_newShape_other_scale_witness:
  "fitted ex_model [Fin 1, Fin 1, Fin 1] ex_U [Fin 1, Fin 1, Fin 1] \<and>
   ''raw'' \<noteq> ''eigs'' \<and> ''raw'' \<noteq> ''std'' \<and>
   newShape ex_model [Fin 3, Fin 4, Fin 5] ''raw'' = Inl UnboundLocalError"
  using C10_newShape_other_scale[OF ex_model_fitted, of "''raw''" "[Fin 3, Fin 4, Fin 5]"]
    ex_model_fitted by simp




subsection \<open>Objects that were never fitted\<close>

lemma pca_raises_keeps_basis:
  assumes "svd_shapes svd" and "pca svd st = (Inl e, st')"
  shows "pca_U st' = pca_U st"
proof (cases "X st")
  case None
  with assms(2) show ?thesis by (simp add: pca_def)
next
  case (Some a)
  show ?thesis
  proof (cases a)
    case (A2 M)
    show ?thesis
    proof (cases "svd (sub_col M (mean_axis1 M))")
      case (Inl e')
      with assms(2) Some A2 show ?thesis by (auto simp: pca_def Let_def)
    next
      case (Inr r)
      obtain U S V where r: "r = (U, S, V)" by (cases r) auto
      from assms(1) Inr r have "nrows V = length S"
        unfolding svd_shapes_def by metis
      then have "\<exists>W. np_dot (np_diag S) V = Inr W"
        by (simp add: np_dot_def np_diag_def)
      with assms(2) Some A2 Inr r show ?thesis by (auto simp: pca_def Let_def)
    qed
  qed (use assms(2) Some in \<open>auto simp: pca_def\<close>)
qed

lemma unfitted_no_basis: "unfitted st \<Longrightarrow> pca_U st = None"
proof (induction rule: unfitted.induct)
  case u_init
  show ?case by (simp add: init_def)
next
  case (u_setBaseline st load path)
  then show ?case by (simp add: setBaseline_def split: sum.splits)
next
  case (u_importFolder st listdir load path unify)
  then show ?case by (simp add: importFolder_def split: sum.splits)
next
  case (u_sliceFiles st planarTrim height)
  then show ?case by (simp add: sliceFiles_def)
next
  case (u_register st np registration)
  then show ?case by (simp add: register_def Let_def split: sum.splits if_splits option.splits)
next
  case (u_pca_raises st svd e st')
  then show ?case using pca_raises_keeps_basis by metis
qed

text \<open>
  Claim C6. On an object on which \<open>pca\<close> has never succeeded, \<open>newShape\<close> fails for every
  coefficient vector and every scale string. The specification's \<open>ModelNotFittedError\<close>
  is, in the code, the exception Python raises on the missing name: \<open>AttributeError\<close> for
  the attribute \<open>pca_U\<close> (or \<open>pca_mean\<close>) that no fit has assigned, and, with an
  unrecognised scale after a fit that raised past the mean, \<open>UnboundLocalError\<close>.
\<close>

theorem C6_newShape_before_fit:
  assumes "unfitted st"
  shows "newShape st sfs scale =
    Inl (if scale = ''eigs'' \<or> scale = ''std'' \<or> pca_mean st = None
         then AttributeError else UnboundLocalError)"
  using unfitted_no_basis[OF assms] by (auto simp: newShape_def split: option.splits)

theorem C6_newShape_before_fit_witness:
  "unfitted init \<and> newShape init [Fin 3, Fin 4, Fin 5] ''eigs'' = Inl AttributeError \<and>
   newShape init [Fin 3, Fin 4, Fin 5] ''std'' = Inl AttributeError"
  using C6_newShape_before_fit[OF u_init, of "[Fin 3, Fin 4, Fin 5]" "''eigs''"]
    C6_newShape_before_fit[OF u_init, of "[Fin 3, Fin 4, Fin 5]" "''std''"] u_init
  by simp



subsection \<open>A fit that raises\<close>

text \<open>
  Whatever the SVD routine does, a call of \<open>pca\<close> that gets to the matrix has stored the
  row means: it cannot raise and leave an object with another mean as it was.
\<close>

lemma pca_raises_unchanged_mean:
  assumes "X st = Some (A2 M)" and "pca svd st = (Inl e, st)"
  shows "pca_mean st = Some (mean_axis1 M)"
  using pca_sets_mean[OF assms(1), of svd] assms(2) by simp

text \<open>
  Claim C5 (as amended). \<open>pca\<close> has no check for non-finite values and nothing restores
  the object when a line raises. Whether a fit on a matrix with a non-finite entry fails
  is up to \<open>np.linalg.svd\<close>. When it raises on the centred matrix (NumPy's \<open>LinAlgError\<close>
  takes the place of the specification's \<open>DecompositionError\<close>), \<open>pca\<close> fails with that
  error, and \<open>pca_mean\<close> has already been overwritten with the row means of \<open>X\<close>; every
  other attribute, \<open>pca_U\<close>, \<open>pca_S\<close>, \<open>pca_V\<close>, \<open>pc_weights\<close> and \<open>pc_stdevs\<close> among them,
  keeps the value it had.
\<close>

theorem C5_pca_svd_raises:
  assumes "X st = Some (A2 M)" and "svd (sub_col M (mean_axis1 M)) = Inl e"
  shows "pca svd st = (Inl e, st\<lparr>pca_mean := Some (mean_axis1 M)\<rparr>)"
  using assms by (simp add: pca_def Let_def)

lemma ex_mean_nan: "mean_axis1 ex_X_nan = [NaN, Fin 1, Fin 1]"
  by (simp add: mean_axis1_def ex_X_nan_def zero_fl_def round_overflow_small)

lemma ex_sub_nan: "sub_col ex_X_nan [NaN, Fin 1, Fin 1] =
  Mat 4 [[NaN, NaN, NaN, NaN], [Fin 1, Fin (- 1), Fin 1, Fin (- 1)],
         [Fin 1, Fin (- 1), Fin (- 1), Fin 1]]"
  by (simp add: sub_col_def fsub_def ex_X_nan_def)

lemma ex_svd_nan: "ex_svd (sub_col ex_X_nan (mean_axis1 ex_X_nan)) = Inl LinAlgError"
  by (simp add: ex_mean_nan ex_sub_nan ex_svd_def svd_table_def ex_centred_def ex_zero_col_def)

theorem C5_pca_svd_raises_witness:
  "X ex_model_nan = Some (A2 ex_X_nan) \<and>
   ex_svd (sub_col ex_X_nan (mean_axis1 ex_X_nan)) = Inl LinAlgError \<and>
   pca ex_svd ex_model_nan = (Inl LinAlgError, ex_model_nan\<lparr>pca_mean := Some [NaN, Fin 1, Fin 1]\<rparr>)"
proof -
  have x: "X ex_model_nan = Some (A2 ex_X_nan)" by (simp add: ex_model_nan_def)
  from C5_pca_svd_raises[of ex_model_nan ex_X_nan ex_svd LinAlgError, OF x ex_svd_nan] x ex_svd_nan
  show ?thesis
    by (simp add: ex_mean_nan)
qed

text \<open>
  The claim as stated fails: the fitted example, given a data matrix with a NaN, is
  changed by the failing \<open>pca\<close>: its mean is no longer the mean of the model.
\<close>

theorem C5_fit_not_atomic_counterexample:
  "\<not> finite_mat ex_X_nan \<and>
   fitted ex_model_nan [Fin 1, Fin 1, Fin 1] ex_U [Fin 1, Fin 1, Fin 1] \<and>
   X ex_model_nan = Some (A2 ex_X_nan) \<and>
   fst (pca ex_svd ex_model_nan) = Inl LinAlgError \<and>
   pca_mean (snd (pca ex_svd ex_model_nan)) = Some [NaN, Fin 1, Fin 1] \<and>
   snd (pca ex_svd ex_model_nan) \<noteq> ex_model_nan"
proof -
  have x: "X ex_model_nan = Some (A2 ex_X_nan)" by (simp add: ex_model_nan_def)
  have p: "pca ex_svd ex_model_nan =
      (Inl LinAlgError, ex_model_nan\<lparr>pca_mean := Some [NaN, Fin 1, Fin 1]\<rparr>)"
    using x ex_svd_nan by (simp add: pca_def Let_def ex_mean_nan)
  have f: "fitted ex_model_nan [Fin 1, Fin 1, Fin 1] ex_U [Fin 1, Fin 1, Fin 1]"
    using ex_model_fitted by (simp add: fitted_def ex_model_nan_def)
  have n: "\<not> finite_mat ex_X_nan"
    by (simp add: finite_mat_def finite_vec_def ex_X_nan_def)
  have d: "ex_model_nan\<lparr>pca_mean := Some [NaN, Fin 1, Fin 1]\<rparr> \<noteq> ex_model_nan"
  proof
    assume "ex_model_nan\<lparr>pca_mean := Some [NaN, Fin 1, Fin 1]\<rparr> = ex_model_nan"
    then have "pca_mean (ex_model_nan\<lparr>pca_mean := Some [NaN, Fin 1, Fin 1]\<rparr>) = pca_mean ex_model_nan"
      by simp
    then show False by (simp add: ex_model_nan_def ex_model_def)
  qed
  show ?thesis using n f x p d by simp
qed



subsection \<open>Coefficient vectors of another length\<close>

lemma map2_replicate: "length r = n \<Longrightarrow> map2 f r (replicate n x) = map (\<lambda>y. f y x) r"
  by (induction r arbitrary: n) auto

lemma mul_bc_singleton:
  assumes "wf_mat M"
  shows "mul_bc M [x] = mul_bc M (replicate (ncols M) x)"
proof (cases "ncols M = 1")
  case True
  then show ?thesis by simp
next
  case False
  have "map (\<lambda>r. map2 (*) r (replicate (ncols M) x)) (rows M) = map (\<lambda>r. map (\<lambda>y. y * x) r) (rows M)"
    using assms by (intro map_cong) (simp_all add: wf_mat_def list_all_iff map2_replicate)
  with False show ?thesis by (simp add: mul_bc_def)
qed

lemma mul_bc_mismatch:
  "length c \<noteq> ncols M \<Longrightarrow> length c \<noteq> 1 \<Longrightarrow> ncols M \<noteq> 1 \<Longrightarrow> mul_bc M c = Inl ValueError"
  by (simp add: mul_bc_def)

lemma mul_bc_one_column:
  "ncols M = 1 \<Longrightarrow> \<exists>P. mul_bc M c = Inr P \<and> nrows P = nrows M"
  by (auto simp: mul_bc_def nrows_def)

lemma add_bc_sum_axis1:
  "length m = nrows P \<Longrightarrow> \<exists>v. add_bc m (sum_axis1 P) = Inr v \<and> length v = nrows P"
  by (simp add: add_bc_def sum_axis1_def nrows_def)

text \<open>
  Claim C3 (as amended). \<open>newShape\<close> pads nothing: the coefficient vector meets the
  \<open>K\<close> columns of the basis under NumPy's broadcasting rule, in both scale modes. On a
  fitted model with \<open>K\<close> modes, a vector whose length is neither \<open>K\<close> nor 1 is rejected
  when \<open>K\<close> is not 1, whether it is longer or shorter than \<open>K\<close> (NumPy's \<open>ValueError\<close> is
  the specification's \<open>DimensionMismatchError\<close>); a vector \<open>[x]\<close> of length 1 is accepted
  and weighs every mode by \<open>x\<close>, as \<open>K\<close> copies of \<open>x\<close> do; and on a model with \<open>K = 1\<close> a
  vector of any length is accepted.
\<close>

theorem C3_newShape_other_length:
  assumes "fitted st m U sd" and "scale = ''eigs'' \<or> scale = ''std''"
  shows "(length c \<noteq> ncols U \<and> length c \<noteq> 1 \<and> ncols U \<noteq> 1 \<longrightarrow>
            newShape st c scale = Inl ValueError) \<and>
         newShape st [x] scale = newShape st (replicate (ncols U) x) scale \<and>
         (ncols U = 1 \<longrightarrow> (\<exists>v. newShape st c scale = Inr v \<and> length v = nrows U))"
proof -
  let ?P = "Mat (ncols U) (map (\<lambda>r. map2 (*) r sd) (rows U))"
  have wfU: "wf_mat U" and lsd: "length sd = ncols U" and lm: "length m = nrows U"
    and a: "pca_mean st = Some m" "pca_U st = Some U" "pc_stdevs st = Some sd"
    using assms(1) by (simp_all add: fitted_def)
  have P: "mul_bc U sd = Inr ?P" using lsd by (rule mul_bc_same)
  have wfP: "wf_mat ?P" using wfU lsd by (rule wf_mat_mul)
  have nP: "nrows ?P = nrows U" "ncols ?P = ncols U" by (simp_all add: nrows_def)
  have 1: "newShape st c scale = Inl ValueError"
    if "length c \<noteq> ncols U" "length c \<noteq> 1" "ncols U \<noteq> 1"
    using assms(2) a P that mul_bc_mismatch[of c U] mul_bc_mismatch[of c ?P]
    by (auto simp: newShape_def)
  have 2: "newShape st [x] scale = newShape st (replicate (ncols U) x) scale"
    using assms(2) a P mul_bc_singleton[OF wfU, of x] mul_bc_singleton[OF wfP, of x]
    by (auto simp: newShape_def)
  have 3: "\<exists>v. newShape st c scale = Inr v \<and> length v = nrows U" if k: "ncols U = 1"
  proof -
    from mul_bc_one_column[OF k, of c] obtain Q where Q: "mul_bc U c = Inr Q" "nrows Q = nrows U"
      by blast
    from mul_bc_one_column[of ?P c] k obtain R where R: "mul_bc ?P c = Inr R" "nrows R = nrows U"
      by (auto simp: nrows_def)
    from add_bc_sum_axis1[of m Q] add_bc_sum_axis1[of m R] lm Q R
    show ?thesis using assms(2) a P by (auto simp: newShape_def)
  qed
  from 1 2 3 show ?thesis by blast
qed

subsection \<open>The corpus of one shape\<close>

lemma ex_single_register: "register np ex_reg ex_single = (Inr (), ex_single_registered)"
  by (simp add: ex_single_registered_def register_def ex_single_def init_def pt_def
      ex_reg_def np_array_def flatten_def transpose_mat_def nrows_def Let_def
      upt_rec[of _ "numeral _"] upt_rec[of 0])

lemma ex_single_pca: "pca ex_svd ex_single_registered = (Inr (), ex_single_model)"
  by (simp add: pca_def ex_single_registered_def ex_single_model_def mean_axis1_def sub_col_def
      fsub_def zero_fl_def round_overflow_small ex_svd_def svd_table_def ex_centred_def ex_zero_col_def Let_def
      np_dot_def np_diag_def nrows_def np_std_axis1_def np_std_row_def)

lemma ex_single_fitted: "fitted ex_single_model [Fin 1, Fin 2, Fin 3] ex_U1 [Fin 0]"
  by (simp add: fitted_def ex_single_model_def ex_U1_def wf_mat_def nrows_def)

theorem C3_newShape_other_length_witness:
  "fitted ex_model [Fin 1, Fin 1, Fin 1] ex_U [Fin 1, Fin 1, Fin 1] \<and>
   newShape ex_model [Fin 3, Fin 4] ''eigs'' = Inl ValueError \<and>
   newShape ex_model [Fin 3] ''eigs'' = newShape ex_model [Fin 3, Fin 3, Fin 3] ''eigs'' \<and>
   fitted ex_single_model [Fin 1, Fin 2, Fin 3] ex_U1 [Fin 0] \<and>
   (\<exists>v. newShape ex_single_model [Fin 5, Fin 7] ''std'' = Inr v \<and> length v = 3)"
proof -
  have "newShape ex_model [Fin 3, Fin 4] ''eigs'' = Inl ValueError"
    using C3_newShape_other_length[OF ex_model_fitted, of "''eigs''" "[Fin 3, Fin 4]"]
    by (simp add: ex_U_def)
  moreover have "newShape ex_model [Fin 3] ''eigs'' = newShape ex_model [Fin 3, Fin 3, Fin 3] ''eigs''"
    using C3_newShape_other_length[OF ex_model_fitted, of "''eigs''" "[]" "Fin 3"]
    by (simp add: ex_U_def eval_nat_numeral)
  moreover have "\<exists>v. newShape ex_single_model [Fin 5, Fin 7] ''std'' = Inr v \<and> length v = 3"
    using C3_newShape_other_length[OF ex_single_fitted, of "''std''" "[Fin 5, Fin 7]"]
    by (simp add: ex_U1_def nrows_def eval_nat_numeral)
  ultimately show ?thesis using ex_model_fitted ex_single_fitted by simp
qed

text \<open>
  The claim as stated fails twice. On the example with \<open>K = 3\<close>, \<open>[1]\<close> moves all three
  modes, \<open>[1, 0, 0]\<close> only the first, in both modes. On the example with \<open>K = 1\<close>, a
  vector of length 2 is not rejected.
\<close>

theorem C3_zero_padding_counterexample:
  "fitted ex_model [Fin 1, Fin 1, Fin 1] ex_U [Fin 1, Fin 1, Fin 1] \<and> ncols ex_U = 3 \<and>
   newShape ex_model [Fin 1] ''eigs'' = Inr [Fin 2, Fin 2, Fin 2] \<and>
   newShape ex_model [Fin 1, Fin 0, Fin 0] ''eigs'' = Inr [Fin 2, Fin 1, Fin 1] \<and>
   newShape ex_model [Fin 1] ''std'' = Inr [Fin 2, Fin 2, Fin 2] \<and>
   newShape ex_model [Fin 1, Fin 0, Fin 0] ''std'' = Inr [Fin 2, Fin 1, Fin 1] \<and>
   fitted ex_single_model [Fin 1, Fin 2, Fin 3] ex_U1 [Fin 0] \<and> ncols ex_U1 = 1 \<and>
   newShape ex_single_model [Fin 5, Fin 7] ''eigs'' = Inr [Fin 13, Fin 2, Fin 3]"
  using ex_model_fitted ex_single_fitted
  by (simp add: newShape_def ex_model_def ex_single_model_def ex_U_def ex_U1_def mul_bc_def
      sum_axis1_def add_bc_def zero_fl_def round_overflow_small)




subsection \<open>Building the data matrix\<close>

lemma length_flatten: "length (flatten vs) = 3 * length vs"
  by (induction vs) (auto simp: flatten_def)

lemma flatten_Cons: "flatten (v # vs) = [fst v, fst (snd v), snd (snd v)] @ flatten vs"
  by (cases v) (auto simp: flatten_def)

lemma flatten_nth:
  "i < length vs \<Longrightarrow>
     flatten vs ! (3 * i) = fst (vs ! i) \<and>
     flatten vs ! (3 * i + 1) = fst (snd (vs ! i)) \<and>
     flatten vs ! (3 * i + 2) = snd (snd (vs ! i))"
proof (induction vs arbitrary: i)
  case Nil
  then show ?case by simp
next
  case (Cons v vs)
  show ?case
  proof (cases i)
    case 0
    then show ?thesis by (simp add: flatten_Cons)
  next
    case (Suc j)
    with Cons.prems have j: "j < length vs" by simp
    have e: "3 * Suc j = Suc (Suc (Suc (3 * j)))" by simp
    from Cons.IH[OF j] show ?thesis
      unfolding Suc e flatten_Cons by simp
  qed
qed

lemma np_array_equal:
  assumes "vs \<noteq> []" and "\<forall>v\<in>set vs. length v = L"
  shows "np_array np vs = Inr (A2 (Mat L vs))"
proof -
  from assms(1) obtain v ws where vs: "vs = v # ws" by (cases vs) auto
  with assms(2) have "length v = L" by simp
  with assms(2) show ?thesis
    by (simp add: np_array_def vs list_all_iff)
qed

lemma np_array_ragged:
  assumes "v1 \<in> set vs" and "v2 \<in> set vs" and "length v1 \<noteq> length v2"
  shows "np_array np vs = (case np of RaggedObject \<Rightarrow> Inr (AObj vs) | RaggedError \<Rightarrow> Inl ValueError)"
proof -
  from assms(1) obtain v ws where vs: "vs = v # ws" by (cases vs) auto
  have "\<not> list_all (\<lambda>w. length w = length v) (v # ws)"
    using assms unfolding list_all_iff vs by metis
  then show ?thesis unfolding vs by (simp add: np_array_def)
qed

lemma register_shapes:
  assumes "shapes st \<noteq> []" and "baseline st = Some b"
  shows "register np registration st =
     (case np_array np (map (\<lambda>r. flatten (vert r)) (map (registration b) (shapes st))) of
        Inl e \<Rightarrow> (Inl e, st\<lparr>registered := Some (map (registration b) (shapes st))\<rparr>)
      | Inr a \<Rightarrow> (Inr (), st\<lparr>registered := Some (map (registration b) (shapes st)),
                             X := Some (T_attr a)\<rparr>))"
  using assms by (simp add: register_def Let_def)

lemma pca_returns:
  assumes "svd_shapes svd" and "X st = Some (A2 M)" and "svd (sub_col M (mean_axis1 M)) = Inr r"
  shows "fst (pca svd st) = Inr ()"
proof -
  obtain U S V where r: "r = (U, S, V)" by (cases r) auto
  from assms(1,3) r have "nrows V = length S"
    unfolding svd_shapes_def by metis
  then have "\<exists>W. np_dot (np_diag S) V = Inr W"
    by (simp add: np_dot_def np_diag_def)
  with assms(2,3) r show ?thesis by (auto simp: pca_def Let_def)
qed

lemma mean_axis1_nth:
  "wf_mat M \<Longrightarrow> mean_axis1 M = map (\<lambda>row. fdivn (\<Sum>n<ncols M. row ! n) (ncols M)) (rows M)"
  unfolding mean_axis1_def
  by (intro map_cong) (auto simp: wf_mat_def list_all_iff sum_list_sum_nth atLeast0LessThan)

text \<open>
  Claim C9. For a non-empty registered set of \<open>N\<close> shapes with \<open>V\<close> vertices each,
  \<open>register\<close> stores in \<open>X\<close> a matrix of \<open>3 * V\<close> rows and \<open>N\<close> columns whose column \<open>n\<close> is
  the flattened vertex array of the \<open>n\<close>-th registered shape, in corpus order; the
  flattening is vertex-major, with the \<open>x\<close>, \<open>y\<close>, \<open>z\<close> of vertex \<open>i\<close> at the positions
  \<open>3 * i\<close>, \<open>3 * i + 1\<close>, \<open>3 * i + 2\<close>; and \<open>pca\<close> computes \<open>pca_mean\<close> as the average of each
  row over the \<open>N\<close> columns of \<open>X\<close>.
\<close>

theorem C9_register_matrix:
  assumes "shapes st \<noteq> []" and "baseline st = Some b"
    and "rs = map (registration b) (shapes st)"
    and "\<forall>r\<in>set rs. length (vert r) = V"
  shows "\<exists>M. register np registration st = (Inr (), st\<lparr>registered := Some rs, X := Some (A2 M)\<rparr>) \<and>
     wf_mat M \<and> nrows M = 3 * V \<and> ncols M = length rs \<and>
     (\<forall>n<length rs. map (\<lambda>row. row ! n) (rows M) = flatten (vert (rs ! n))) \<and>
     (\<forall>n<length rs. \<forall>i<V.
        flatten (vert (rs ! n)) ! (3 * i) = fst (vert (rs ! n) ! i) \<and>
        flatten (vert (rs ! n)) ! (3 * i + 1) = fst (snd (vert (rs ! n) ! i)) \<and>
        flatten (vert (rs ! n)) ! (3 * i + 2) = snd (snd (vert (rs ! n) ! i))) \<and>
     pca_mean (snd (pca svd (st\<lparr>registered := Some rs, X := Some (A2 M)\<rparr>))) =
       Some (map (\<lambda>row. fdivn (\<Sum>n<length rs. row ! n) (length rs)) (rows M))"
proof -
  let ?vs = "map (\<lambda>r. flatten (vert r)) rs"
  let ?M = "transpose_mat (Mat (3 * V) ?vs)"
  have ne: "?vs \<noteq> []" using assms(1,3) by simp
  have len: "\<forall>v\<in>set ?vs. length v = 3 * V" using assms(4) by (auto simp: length_flatten)
  have reg: "register np registration st = (Inr (), st\<lparr>registered := Some rs, X := Some (A2 ?M)\<rparr>)"
    using register_shapes[OF assms(1,2), of np registration] np_array_equal[OF ne len, of np]
    by (simp add: assms(3))
  have wf: "wf_mat ?M" by (simp add: transpose_mat_def wf_mat_def list_all_iff nrows_def)
  have nr: "nrows ?M = 3 * V" by (simp add: transpose_mat_def nrows_def)
  have nc: "ncols ?M = length rs" by (simp add: transpose_mat_def nrows_def)
  have col: "map (\<lambda>row. row ! n) (rows ?M) = flatten (vert (rs ! n))" if "n < length rs" for n
    using that assms(4) by (intro nth_equalityI) (simp_all add: transpose_mat_def length_flatten)
  have fl: "flatten (vert (rs ! n)) ! (3 * i) = fst (vert (rs ! n) ! i) \<and>
        flatten (vert (rs ! n)) ! (3 * i + 1) = fst (snd (vert (rs ! n) ! i)) \<and>
        flatten (vert (rs ! n)) ! (3 * i + 2) = snd (snd (vert (rs ! n) ! i))"
    if "n < length rs" "i < V" for n i
    using that assms(4) by (intro flatten_nth) simp
  have mean: "pca_mean (snd (pca svd (st\<lparr>registered := Some rs, X := Some (A2 ?M)\<rparr>))) =
       Some (map (\<lambda>row. fdivn (\<Sum>n<length rs. row ! n) (length rs)) (rows ?M))"
    using pca_sets_mean[of "st\<lparr>registered := Some rs, X := Some (A2 ?M)\<rparr>" ?M svd]
      mean_axis1_nth[OF wf] by (simp add: nc)
  from reg wf nr nc col fl mean show ?thesis by blast
qed


theorem C9_register_matrix_witness:
  "shapes ex_start \<noteq> [] \<and> baseline ex_start = Some (pt 2 2 2) \<and>
   ex_shapes = map (ex_reg (pt 2 2 2)) (shapes ex_start) \<and>
   list_all (\<lambda>r. length (vert r) = 1) ex_shapes \<and>
   register RaggedError ex_reg ex_start = (Inr (), ex_registered) \<and>
   X ex_registered = Some (A2 ex_X) \<and>
   pca_mean (snd (pca ex_svd ex_registered)) = Some [Fin 1, Fin 1, Fin 1]"
proof -
  have a: "shapes ex_start \<noteq> []" and b: "baseline ex_start = Some (pt 2 2 2)"
    by (simp_all add: ex_start_def ex_shapes_def)
  have c: "ex_shapes = map (ex_reg (pt 2 2 2)) (shapes ex_start)"
    by (simp add: ex_start_def ex_reg_def ex_shapes_def)
  have d: "list_all (\<lambda>r. length (vert r) = 1) ex_shapes"
    by (simp add: ex_shapes_def pt_def)
  then have d': "\<forall>r\<in>set ex_shapes. length (vert r) = 1" by (simp add: list_all_iff)
  from C9_register_matrix[where st = ex_start and b = "pt 2 2 2" and rs = ex_shapes
      and registration = ex_reg and V = 1 and np = RaggedError and svd = ex_svd, OF a b c d']
  obtain M where
    r: "register RaggedError ex_reg ex_start =
          (Inr (), ex_start\<lparr>registered := Some ex_shapes, X := Some (A2 M)\<rparr>)" and
    m: "pca_mean (snd (pca ex_svd (ex_start\<lparr>registered := Some ex_shapes, X := Some (A2 M)\<rparr>))) =
          Some (map (\<lambda>row. fdivn (\<Sum>n<length ex_shapes. row ! n) (length ex_shapes)) (rows M))"
    by blast
  from r have e: "ex_start\<lparr>registered := Some ex_shapes, X := Some (A2 M)\<rparr> = ex_registered"
    by (simp add: ex_register)
  then have "X (ex_start\<lparr>registered := Some ex_shapes, X := Some (A2 M)\<rparr>) = X ex_registered"
    by simp
  then have M: "M = ex_X" by (simp add: ex_registered_def)
  have x: "X ex_registered = Some (A2 ex_X)" by (simp add: ex_registered_def)
  have e2: "ex_start\<lparr>registered := Some ex_shapes, X := Some (A2 ex_X)\<rparr> = ex_registered"
    by (simp add: ex_registered_def)
  have l: "length ex_shapes = 4" by (simp add: ex_shapes_def)
  from m have "pca_mean (snd (pca ex_svd ex_registered)) =
      Some (map (\<lambda>row. fdivn (\<Sum>n<4. row ! n) 4) (rows ex_X))"
    unfolding M e2 l .
  then have "pca_mean (snd (pca ex_svd ex_registered)) = Some [Fin 1, Fin 1, Fin 1]"
    by (simp add: ex_X_def lessThan_Suc eval_nat_numeral zero_fl_def round_overflow_small)
  with a b c d r e x show ?thesis by simp
qed

text \<open>
  Claim C7 (as amended). \<open>register\<close> compares no vertex counts; what happens to
  registered shapes of different vertex counts is what \<open>np.array\<close> does with rows of
  different lengths. NumPy from 1.24 on raises \<open>ValueError\<close> (the specification's
  \<open>TopologyMismatchError\<close>): \<open>register\<close> fails, with \<open>self.registered\<close> assigned and
  \<open>self.X\<close> untouched. Older NumPy builds a 1-D object array: \<open>register\<close> returns
  normally and stores it in \<open>self.X\<close>, and it is the following \<open>pca\<close> that fails, with
  \<open>AxisError\<close>, leaving the object as it was. Either way no model is fitted.
\<close>

theorem C7_register_ragged:
  assumes "shapes st \<noteq> []" and "baseline st = Some b"
    and "rs = map (registration b) (shapes st)"
    and "r1 \<in> set rs" and "r2 \<in> set rs" and "length (vert r1) \<noteq> length (vert r2)"
  shows "register RaggedError registration st = (Inl ValueError, st\<lparr>registered := Some rs\<rparr>) \<and>
     register RaggedObject registration st =
       (Inr (), st\<lparr>registered := Some rs, X := Some (AObj (map (\<lambda>r. flatten (vert r)) rs))\<rparr>) \<and>
     pca svd (st\<lparr>registered := Some rs, X := Some (AObj (map (\<lambda>r. flatten (vert r)) rs))\<rparr>) =
       (Inl AxisError, st\<lparr>registered := Some rs, X := Some (AObj (map (\<lambda>r. flatten (vert r)) rs))\<rparr>)"
proof -
  let ?vs = "map (\<lambda>r. flatten (vert r)) rs"
  have i: "flatten (vert r1) \<in> set ?vs" "flatten (vert r2) \<in> set ?vs"
    using assms(4,5) by simp_all
  have n: "length (flatten (vert r1)) \<noteq> length (flatten (vert r2))"
    using assms(6) by (simp add: length_flatten)
  have "np_array np ?vs =
      (case np of RaggedObject \<Rightarrow> Inr (AObj ?vs) | RaggedError \<Rightarrow> Inl ValueError)" for np
    using i n by (rule np_array_ragged)
  then show ?thesis
    using register_shapes[OF assms(1,2), of _ registration]
    by (simp add: assms(3) pca_def)
qed

lemma ex_ragged_facts:
  "shapes ex_ragged \<noteq> []" "baseline ex_ragged = Some (pt 1 2 3)"
  "[pt 1 2 3, two_pts] = map (ex_reg (pt 1 2 3)) (shapes ex_ragged)"
  "pt 1 2 3 \<in> set [pt 1 2 3, two_pts]" "two_pts \<in> set [pt 1 2 3, two_pts]"
  "length (vert (pt 1 2 3)) \<noteq> length (vert two_pts)"
  by (simp_all add: ex_ragged_def ex_reg_def pt_def two_pts_def)

theorem C7_register_ragged_witness:
  "length (vert (pt 1 2 3)) \<noteq> length (vert two_pts) \<and>
   register RaggedError ex_reg ex_ragged =
     (Inl ValueError, ex_ragged\<lparr>registered := Some [pt 1 2 3, two_pts]\<rparr>) \<and>
   fst (register RaggedObject ex_reg ex_ragged) = Inr () \<and>
   fst (pca ex_svd (snd (register RaggedObject ex_reg ex_ragged))) = Inl AxisError"
  using C7_register_ragged[where st = ex_ragged and b = "pt 1 2 3" and rs = "[pt 1 2 3, two_pts]"
      and registration = ex_reg and ?r1.0 = "pt 1 2 3" and ?r2.0 = two_pts and svd = ex_svd,
      OF ex_ragged_facts] ex_ragged_facts(6)
  by simp

text \<open>
  The claim as stated fails on NumPy before 1.24: with a shape of one vertex and a shape
  of two, \<open>register\<close> returns normally and \<open>self.X\<close> holds the two rows of lengths 3 and 6.
\<close>

theorem C7_ragged_coerced_counterexample:
  "length (vert (pt 1 2 3)) = 1 \<and> length (vert two_pts) = 2 \<and>
   register RaggedObject ex_reg ex_ragged =
     (Inr (), ex_ragged\<lparr>registered := Some [pt 1 2 3, two_pts],
        X := Some (AObj [[Fin 1, Fin 2, Fin 3], [Fin 0, Fin 0, Fin 0, Fin 1, Fin 0, Fin 0]])\<rparr>)"
  by (simp add: register_def ex_ragged_def init_def ex_reg_def pt_def two_pts_def np_array_def
      flatten_def Let_def)



subsection \<open>Fewer than two shapes\<close>

lemma importFolder_no_match:
  assumes "listdir path = Inr fs" and "\<forall>f\<in>set fs. \<not> endswith f ''.stl''"
  shows "importFolder listdir load path unify st = (Inr (), st\<lparr>shapes := []\<rparr>)"
proof -
  have "filter (\<lambda>f. endswith f ''.stl'') fs = []"
    using assms(2) by (simp add: filter_empty_conv)
  with assms(1) show ?thesis by (simp add: importFolder_def)
qed

lemma fdivn_one: "fdivn x (Suc 0) = x"
  by (cases x) simp_all

lemma svd_table_shapes:
  assumes "\<forall>(M, U, S, V)\<in>set tbl.
     wf_mat U \<and> nrows U = nrows M \<and> ncols U = min (nrows M) (ncols M) \<and>
     length S = min (nrows M) (ncols M) \<and>
     wf_mat V \<and> nrows V = min (nrows M) (ncols M) \<and> ncols V = ncols M"
  shows "svd_shapes (svd_table tbl)"
  unfolding svd_shapes_def svd_table_def
  using assms by (auto split: option.splits dest!: map_of_SomeD)

lemma ex_svd_shapes: "svd_shapes ex_svd"
  unfolding ex_svd_def
  by (rule svd_table_shapes)
    (simp add: ex_centred_def ex_U_def ex_V_def ex_zero_col_def ex_U1_def wf_mat_def nrows_def)

text \<open>
  Claim C8 (as amended). Neither \<open>register\<close> nor \<open>pca\<close> counts the shapes, and there is
  no \<open>InsufficientDataError\<close>. With no shape at all (a folder without \<open>.stl\<close> file),
  \<open>register\<close> succeeds and stores the empty 1-D array in \<open>self.X\<close>; the following \<open>pca\<close>
  fails with NumPy's \<open>AxisError\<close> and changes nothing. With exactly one shape,
  \<open>register\<close> succeeds with a matrix of one column, \<open>pca\<close> takes the flattened shape itself
  as the mean, and it produces a model whenever \<open>np.linalg.svd\<close> returns.
\<close>

theorem C8_fewer_than_two_shapes:
  "(shapes st = [] \<longrightarrow>
      register np registration st = (Inr (), st\<lparr>registered := Some [], X := Some (A1 [])\<rparr>) \<and>
      pca svd (st\<lparr>registered := Some [], X := Some (A1 [])\<rparr>) =
        (Inl AxisError, st\<lparr>registered := Some [], X := Some (A1 [])\<rparr>)) \<and>
   (shapes st = [s] \<and> baseline st = Some b \<longrightarrow>
      (\<exists>M. register np registration st =
              (Inr (), st\<lparr>registered := Some [registration b s], X := Some (A2 M)\<rparr>) \<and>
           nrows M = 3 * length (vert (registration b s)) \<and> ncols M = 1 \<and>
           pca_mean (snd (pca svd (st\<lparr>registered := Some [registration b s], X := Some (A2 M)\<rparr>))) =
             Some (flatten (vert (registration b s))) \<and>
           (svd_shapes svd \<and> (\<exists>r. svd (sub_col M (mean_axis1 M)) = Inr r) \<longrightarrow>
              fst (pca svd (st\<lparr>registered := Some [registration b s], X := Some (A2 M)\<rparr>)) = Inr ())))"
proof (intro conjI impI)
  assume "shapes st = []"
  then show "register np registration st = (Inr (), st\<lparr>registered := Some [], X := Some (A1 [])\<rparr>)"
    by (simp add: register_def np_array_def)
next
  show "pca svd (st\<lparr>registered := Some [], X := Some (A1 [])\<rparr>) =
        (Inl AxisError, st\<lparr>registered := Some [], X := Some (A1 [])\<rparr>)"
    by (simp add: pca_def)
next
  assume a: "shapes st = [s] \<and> baseline st = Some b"
  let ?r = "registration b s"
  let ?v = "flatten (vert ?r)"
  let ?M = "Mat 1 (map (\<lambda>j. [?v ! j]) [0..<length ?v])"
  let ?st = "st\<lparr>registered := Some [?r], X := Some (A2 ?M)\<rparr>"
  have reg: "register np registration st = (Inr (), ?st)"
    using a by (simp add: register_def np_array_def Let_def transpose_mat_def nrows_def)
  have nr: "nrows ?M = 3 * length (vert ?r)" by (simp add: nrows_def length_flatten)
  have "mean_axis1 ?M = ?v"
    by (intro nth_equalityI) (simp_all add: mean_axis1_def fdivn_one)
  then have mean: "pca_mean (snd (pca svd ?st)) = Some ?v"
    using pca_sets_mean[of ?st ?M svd] by simp
  have ret: "fst (pca svd ?st) = Inr ()"
    if "svd_shapes svd \<and> (\<exists>r. svd (sub_col ?M (mean_axis1 ?M)) = Inr r)"
    using that pca_returns[of svd ?st ?M] by auto
  from reg nr mean ret
  show "\<exists>M. register np registration st =
              (Inr (), st\<lparr>registered := Some [?r], X := Some (A2 M)\<rparr>) \<and>
           nrows M = 3 * length (vert ?r) \<and> ncols M = 1 \<and>
           pca_mean (snd (pca svd (st\<lparr>registered := Some [?r], X := Some (A2 M)\<rparr>))) = Some ?v \<and>
           (svd_shapes svd \<and> (\<exists>r. svd (sub_col M (mean_axis1 M)) = Inr r) \<longrightarrow>
              fst (pca svd (st\<lparr>registered := Some [?r], X := Some (A2 M)\<rparr>)) = Inr ())"
    by (intro exI[of _ ?M]) simp
qed


theorem C8_fewer_than_two_shapes_witness:
  "shapes init = [] \<and>
   register RaggedError ex_reg init = (Inr (), init\<lparr>registered := Some [], X := Some (A1 [])\<rparr>) \<and>
   pca ex_svd (init\<lparr>registered := Some [], X := Some (A1 [])\<rparr>) =
     (Inl AxisError, init\<lparr>registered := Some [], X := Some (A1 [])\<rparr>) \<and>
   shapes ex_single = [pt 1 2 3] \<and> baseline ex_single = Some (pt 1 2 3) \<and>
   svd_shapes ex_svd \<and>
   pca_mean (snd (pca ex_svd ex_single_registered)) = Some [Fin 1, Fin 2, Fin 3] \<and>
   fst (pca ex_svd ex_single_registered) = Inr ()"
proof -
  have i: "shapes init = []" by (simp add: init_def)
  have a: "shapes ex_single = [pt 1 2 3]" "baseline ex_single = Some (pt 1 2 3)"
    by (simp_all add: ex_single_def)
  have g: "ex_reg (pt 1 2 3) (pt 1 2 3) = pt 1 2 3" by (simp add: ex_reg_def)
  from C8_fewer_than_two_shapes[of init RaggedError ex_reg ex_svd] i
  have e: "register RaggedError ex_reg init =
        (Inr (), init\<lparr>registered := Some [], X := Some (A1 [])\<rparr>)"
      "pca ex_svd (init\<lparr>registered := Some [], X := Some (A1 [])\<rparr>) =
        (Inl AxisError, init\<lparr>registered := Some [], X := Some (A1 [])\<rparr>)"
    by simp_all
  from C8_fewer_than_two_shapes[of ex_single RaggedError ex_reg ex_svd "pt 1 2 3" "pt 1 2 3"] a
  obtain M where
    r: "register RaggedError ex_reg ex_single =
          (Inr (), ex_single\<lparr>registered := Some [pt 1 2 3], X := Some (A2 M)\<rparr>)" and
    m: "pca_mean (snd (pca ex_svd (ex_single\<lparr>registered := Some [pt 1 2 3], X := Some (A2 M)\<rparr>))) =
          Some (flatten (vert (pt 1 2 3)))" and
    p: "svd_shapes ex_svd \<and> (\<exists>r. ex_svd (sub_col M (mean_axis1 M)) = Inr r) \<longrightarrow>
          fst (pca ex_svd (ex_single\<lparr>registered := Some [pt 1 2 3], X := Some (A2 M)\<rparr>)) = Inr ()"
    unfolding g by blast
  from r have q: "ex_single\<lparr>registered := Some [pt 1 2 3], X := Some (A2 M)\<rparr> = ex_single_registered"
    by (simp add: ex_single_register)
  then have "X (ex_single\<lparr>registered := Some [pt 1 2 3], X := Some (A2 M)\<rparr>) = X ex_single_registered"
    by simp
  then have M: "M = Mat 1 [[Fin 1], [Fin 2], [Fin 3]]" by (simp add: ex_single_registered_def)
  have s: "\<exists>r. ex_svd (sub_col M (mean_axis1 M)) = Inr r"
    unfolding M
    by (simp add: mean_axis1_def sub_col_def fsub_def zero_fl_def round_overflow_small ex_svd_def svd_table_def
        ex_centred_def ex_zero_col_def)
  have f: "flatten (vert (pt 1 2 3)) = [Fin 1, Fin 2, Fin 3]"
    by (simp add: flatten_def pt_def)
  from m p s ex_svd_shapes
  have "pca_mean (snd (pca ex_svd ex_single_registered)) = Some [Fin 1, Fin 2, Fin 3]"
    and "fst (pca ex_svd ex_single_registered) = Inr ()"
    unfolding q f by simp_all
  with i a e ex_svd_shapes show ?thesis by simp
qed

text \<open>
  The claim as stated fails for both counts: one shape gives a fitted model with one
  mode, and for no shape at all building the matrix does not fail.
\<close>

theorem C8_single_shape_model_counterexample:
  "length (shapes ex_single) = 1 \<and>
   register RaggedError ex_reg ex_single = (Inr (), ex_single_registered) \<and>
   pca ex_svd ex_single_registered = (Inr (), ex_single_model) \<and>
   fitted ex_single_model [Fin 1, Fin 2, Fin 3] ex_U1 [Fin 0] \<and>
   length (shapes init) = 0 \<and>
   register RaggedError ex_reg init = (Inr (), init\<lparr>registered := Some [], X := Some (A1 [])\<rparr>)"
  using ex_single_register[of RaggedError] ex_single_pca ex_single_fitted
  by (simp add: ex_single_def register_def init_def np_array_def)


end
